theory Spec2Isabelle
  imports Complex_Main
begin

section \<open>JavaScript values and dates\<close>

text \<open>
  A JavaScript \<^verbatim>\<open>Date\<close> holds a time value: a number of milliseconds since the epoch, or
  NaN (an "Invalid Date"). \<^verbatim>\<open>isNaN(d.getTime())\<close> tests for the latter.
\<close>

datatype jsdate = InvalidDate | ValidDate int

fun isNaN_getTime :: "jsdate \<Rightarrow> bool" where
  "isNaN_getTime InvalidDate = True"
| "isNaN_getTime (ValidDate t) = False"

text \<open>ECMAScript TimeClip: a time value beyond 8.64e15 ms is not a date.\<close>

definition TimeClip :: "int \<Rightarrow> jsdate" where
  "TimeClip t = (if - 8640000000000000 \<le> t \<and> t \<le> 8640000000000000 then ValidDate t else InvalidDate)"

definition msPerDay :: int where
  "msPerDay = 1000 * 60 * 60 * 24"

text \<open>
  The calendar of the Date built-ins, read in UTC (the process time zone is taken to be UTC):
  days since the epoch of a civil date and back (proleptic Gregorian calendar, months 1..12).
\<close>

definition days_from_civil :: "int \<Rightarrow> int \<Rightarrow> int \<Rightarrow> int" where
  "days_from_civil y m d =
     (let y' = (if m \<le> 2 then y - 1 else y);
          era = y' div 400;
          yoe = y' - era * 400;
          doy = (153 * (if m > 2 then m - 3 else m + 9) + 2) div 5 + d - 1;
          doe = yoe * 365 + yoe div 4 - yoe div 100 + doy
      in era * 146097 + doe - 719468)"

definition civil_from_days :: "int \<Rightarrow> int \<times> int \<times> int" where
  "civil_from_days z =
     (let z' = z + 719468;
          era = z' div 146097;
          doe = z' - era * 146097;
          yoe = (doe - doe div 1460 + doe div 36524 - doe div 146096) div 365;
          doy = doe - (365 * yoe + yoe div 4 - yoe div 100);
          mp = (5 * doy + 2) div 153;
          d = doy - (153 * mp + 2) div 5 + 1;
          m = (if mp < 10 then mp + 3 else mp - 9);
          y = yoe + era * 400
      in (if m \<le> 2 then y + 1 else y, m, d))"

text \<open>
  ECMAScript MakeDay for a year, a 0-based month that may exceed 11, and a day of the month
  that may exceed the month's length (the excess runs into the next month).
\<close>

definition MakeDay :: "int \<Rightarrow> int \<Rightarrow> int \<Rightarrow> int" where
  "MakeDay y m0 d = days_from_civil (y + m0 div 12) (m0 mod 12 + 1) 1 + d - 1"

text \<open>\<^verbatim>\<open>d.setMonth(d.getMonth() + 1)\<close>\<close>

fun setMonth_next :: "jsdate \<Rightarrow> jsdate" where
  "setMonth_next InvalidDate = InvalidDate"
| "setMonth_next (ValidDate t) =
     (case civil_from_days (t div msPerDay) of
        (y, m, d) \<Rightarrow> TimeClip (MakeDay y ((m - 1) + 1) d * msPerDay + t mod msPerDay))"

text \<open>\<^verbatim>\<open>d.setFullYear(d.getFullYear() + 1)\<close>\<close>

fun setFullYear_next :: "jsdate \<Rightarrow> jsdate" where
  "setFullYear_next InvalidDate = InvalidDate"
| "setFullYear_next (ValidDate t) =
     (case civil_from_days (t div msPerDay) of
        (y, m, d) \<Rightarrow> TimeClip (MakeDay (y + 1) (m - 1) d * msPerDay + t mod msPerDay))"

text \<open>Decimal digits, for \<^verbatim>\<open>toLocaleDateString("fr-FR")\<close>: day/month/year, two digits each
  for day and month.\<close>

definition digit :: "nat \<Rightarrow> char" where
  "digit n = ''0123456789'' ! (n mod 10)"

fun show_nat :: "nat \<Rightarrow> string" where
  "show_nat n = (if n < 10 then [digit n] else show_nat (n div 10) @ [digit n])"

definition pad2 :: "nat \<Rightarrow> string" where
  "pad2 n = (if n < 10 then CHR ''0'' # show_nat n else show_nat n)"

fun toLocaleDateString_frFR :: "jsdate \<Rightarrow> string" where
  "toLocaleDateString_frFR InvalidDate = ''Invalid Date''"
| "toLocaleDateString_frFR (ValidDate t) =
     (case civil_from_days (t div msPerDay) of
        (y, m, d) \<Rightarrow> pad2 (nat d) @ ''/'' @ pad2 (nat m) @ ''/'' @ show_nat (nat y))"

text \<open>
  The values a caller can put in the \<^verbatim>\<open>endDate\<close> field of an update: null, a string, a number,
  NaN or a Date object (\<^verbatim>\<open>undefined\<close> is the absence of the field).
\<close>

datatype jsval = Null | Str string | Num int | NaN | DateObj jsdate

fun truthy :: "jsval \<Rightarrow> bool" where
  "truthy Null = False"
| "truthy (Str s) = (s \<noteq> [])"
| "truthy (Num n) = (n \<noteq> 0)"
| "truthy NaN = False"
| "truthy (DateObj d) = True"

text \<open>\<^verbatim>\<open>new Date(v)\<close>; the parser of date strings is a parameter.\<close>

fun new_Date :: "(string \<Rightarrow> jsdate) \<Rightarrow> jsval \<Rightarrow> jsdate" where
  "new_Date parse Null = ValidDate 0"
| "new_Date parse (Str s) = parse s"
| "new_Date parse (Num n) = TimeClip n"
| "new_Date parse NaN = InvalidDate"
| "new_Date parse (DateObj d) = d"

section \<open>The subscription store (models/Subscription.js)\<close>

type_synonym uid = string

text \<open>
  A Subscription document. The payment, refund and accumulator fields of the schema are
  written by no operation modelled here and are left out.
\<close>

record subscription =
  userId :: uid
  plan :: string
  startDate :: jsdate
  endDate :: "jsdate option"
  isActive :: bool
  status :: string
  cancelationType :: "string option"
  stripeCustomerId :: "string option"
  stripeSubscriptionId :: "string option"
  stripePriceId :: "string option"
  updatedAt :: int

text \<open>
  The object handed to \<^verbatim>\<open>updateSubscription\<close>: every field may be absent (\<open>None\<close>); a field
  that may be set to \<^verbatim>\<open>null\<close> has a second option.
\<close>

record update_data =
  d_plan :: "string option"
  d_status :: "string option"
  d_isActive :: "bool option"
  d_startDate :: "jsdate option"
  d_endDate :: "jsval option"
  d_cancelationType :: "string option option"
  d_stripeCustomerId :: "string option option"
  d_stripeSubscriptionId :: "string option option"
  d_stripePriceId :: "string option option"
  d_updateUserRole :: "bool option"

definition no_data :: update_data where
  "no_data = \<lparr>d_plan = None, d_status = None, d_isActive = None, d_startDate = None,
     d_endDate = None, d_cancelationType = None, d_stripeCustomerId = None,
     d_stripeSubscriptionId = None, d_stripePriceId = None, d_updateUserRole = None\<rparr>"

text \<open>\<^verbatim>\<open>SubscriptionSchema.pre("save")\<close>: an invalid end date is removed, and a canceled
  subscription whose end date has passed is deactivated.\<close>

definition pre_save :: "int \<Rightarrow> subscription \<Rightarrow> subscription" where
  "pre_save now_ms s =
     (let s1 = (case endDate s of
                  Some d \<Rightarrow> if isNaN_getTime d then s\<lparr>endDate := None\<rparr> else s
                | None \<Rightarrow> s)
      in case endDate s1 of
           Some (ValidDate t) \<Rightarrow>
             if status s1 = ''canceled'' \<and> now_ms \<ge> t then s1\<lparr>isActive := False\<rparr> else s1
         | _ \<Rightarrow> s1)"

text \<open>\<^verbatim>\<open>SubscriptionSchema.pre("findOneAndUpdate")\<close>: cleans the end date of the update, and
  nothing else.\<close>

definition pre_findOneAndUpdate :: "(string \<Rightarrow> jsdate) \<Rightarrow> update_data \<Rightarrow> update_data" where
  "pre_findOneAndUpdate parse upd =
     (case d_endDate upd of
        None \<Rightarrow> upd
      | Some v \<Rightarrow>
          if v = Null \<or> v = Str ''null'' \<or> v = Str '''' then upd\<lparr>d_endDate := None\<rparr>
          else if isNaN_getTime (new_Date parse v) then upd\<lparr>d_endDate := None\<rparr>
          else upd)"

text \<open>The schema's defaults, applied when an upsert inserts a document.\<close>

definition new_document :: "int \<Rightarrow> uid \<Rightarrow> subscription" where
  "new_document now_ms u =
     \<lparr>userId = u, plan = ''free'', startDate = ValidDate now_ms, endDate = None,
      isActive = True, status = ''active'', cancelationType = None, stripeCustomerId = None,
      stripeSubscriptionId = None, stripePriceId = None, updatedAt = now_ms\<rparr>"

definition set_field :: "'a option \<Rightarrow> 'a \<Rightarrow> 'a" where
  "set_field v old = (case v of None \<Rightarrow> old | Some x \<Rightarrow> x)"

text \<open>The update applied to a document: each field present in the update is set, the end date
  cast to a Date; \<^verbatim>\<open>updatedAt\<close> is stamped. \<^verbatim>\<open>updateUserRole\<close> is not a path of the schema and
  is dropped.\<close>

definition apply_update :: "(string \<Rightarrow> jsdate) \<Rightarrow> int \<Rightarrow> update_data \<Rightarrow> subscription \<Rightarrow> subscription" where
  "apply_update parse now_ms upd s =
     s\<lparr>plan := set_field (d_plan upd) (plan s),
       status := set_field (d_status upd) (status s),
       isActive := set_field (d_isActive upd) (isActive s),
       startDate := set_field (d_startDate upd) (startDate s),
       endDate := (case d_endDate upd of None \<Rightarrow> endDate s | Some v \<Rightarrow> Some (new_Date parse v)),
       cancelationType := set_field (d_cancelationType upd) (cancelationType s),
       stripeCustomerId := set_field (d_stripeCustomerId upd) (stripeCustomerId s),
       stripeSubscriptionId := set_field (d_stripeSubscriptionId upd) (stripeSubscriptionId s),
       stripePriceId := set_field (d_stripePriceId upd) (stripePriceId s),
       updatedAt := now_ms\<rparr>"

text \<open>Replace the first document that matches.\<close>

fun replace_first :: "('a \<Rightarrow> bool) \<Rightarrow> 'a \<Rightarrow> 'a list \<Rightarrow> 'a list" where
  "replace_first P y [] = []"
| "replace_first P y (x # xs) = (if P x then y # xs else x # replace_first P y xs)"

section \<open>The world: stores, remote gateway, effects\<close>

text \<open>Every call that leaves the process is logged, in the order it is issued.\<close>

datatype stripe_request =
    SetCancelAtPeriodEnd bool
  | ChangePrice string string

datatype effect =
    RoleWrite uid string
  | SubscriptionWrite uid
  | StripeRetrieve string
  | StripeUpdate string stripe_request

record world =
  subscriptions :: "subscription list"
  roles :: "(uid \<times> string) list"
  effects :: "effect list"

record stripe_error =
  err_code :: "string option"
  err_message :: string

record stripe_subscription =
  sub_id :: string
  cancel_at_period_end :: bool
  current_period_end :: "int option"
  item_ids :: "string list"

text \<open>
  What the operations read from outside: the clock (one reading per operation), the date
  parser, the answers of the payment gateway, whether a store write fails (and with which
  message), and the configured price ids.
\<close>

record env =
  now :: int
  Date_parse :: "string \<Rightarrow> jsdate"
  stripe_retrieve :: "string \<Rightarrow> stripe_error + stripe_subscription"
  stripe_update :: "string \<Rightarrow> stripe_request \<Rightarrow> stripe_error + stripe_subscription"
  user_write_fails :: "string option"
  subscription_write_fails :: "string option"
  STRIPE_PRICE_ANNUAL_ID :: "string option"
  STRIPE_PRICE_MONTHLY_ID :: "string option"

definition log_effect :: "effect \<Rightarrow> world \<Rightarrow> world" where
  "log_effect x w = w\<lparr>effects := effects w @ [x]\<rparr>"

text \<open>\<^verbatim>\<open>User.findByIdAndUpdate(id, { role })\<close>: sets the role of the user when there is one.
  \<open>Inl\<close> is the message of the error thrown.\<close>

definition set_role :: "uid \<Rightarrow> string \<Rightarrow> (uid \<times> string) list \<Rightarrow> (uid \<times> string) list" where
  "set_role u r rs = map (\<lambda>(k, v). if k = u then (k, r) else (k, v)) rs"

definition User_findByIdAndUpdate :: "env \<Rightarrow> uid \<Rightarrow> string \<Rightarrow> world \<Rightarrow> (string + unit) \<times> world" where
  "User_findByIdAndUpdate e u r w =
     (let w1 = log_effect (RoleWrite u r) w
      in case user_write_fails e of
           Some msg \<Rightarrow> (Inl msg, w1)
         | None \<Rightarrow> (Inr (), w1\<lparr>roles := set_role u r (roles w1)\<rparr>))"

text \<open>\<^verbatim>\<open>Subscription.findOne(filter)\<close>\<close>

definition Subscription_findOne :: "(subscription \<Rightarrow> bool) \<Rightarrow> world \<Rightarrow> subscription option" where
  "Subscription_findOne P w = find P (subscriptions w)"

text \<open>\<^verbatim>\<open>Subscription.findOneAndUpdate({ userId }, update, { upsert: true, new: true })\<close>: the
  pre-hook runs on the update, then the matching document is updated, or a new one inserted.\<close>

definition Subscription_findOneAndUpdate ::
  "env \<Rightarrow> uid \<Rightarrow> update_data \<Rightarrow> world \<Rightarrow> (string + subscription) \<times> world" where
  "Subscription_findOneAndUpdate e u upd0 w =
     (let w1 = log_effect (SubscriptionWrite u) w;
          upd = pre_findOneAndUpdate (Date_parse e) upd0
      in case subscription_write_fails e of
           Some msg \<Rightarrow> (Inl msg, w1)
         | None \<Rightarrow>
            (case Subscription_findOne (\<lambda>s. userId s = u) w1 of
               Some s \<Rightarrow>
                 (let s' = apply_update (Date_parse e) (now e) upd s
                  in (Inr s', w1\<lparr>subscriptions := replace_first (\<lambda>s. userId s = u) s' (subscriptions w1)\<rparr>))
             | None \<Rightarrow>
                 (let s' = apply_update (Date_parse e) (now e) upd (new_document (now e) u)
                  in (Inr s', w1\<lparr>subscriptions := subscriptions w1 @ [s']\<rparr>))))"

section \<open>services/subscriptionIntegrationService.js\<close>

subsection \<open>updateSubscription\<close>

text \<open>Lines 21-48: the end date of the data is validated before the merge.\<close>

definition clean_endDate :: "(string \<Rightarrow> jsdate) \<Rightarrow> update_data \<Rightarrow> update_data" where
  "clean_endDate parse data =
     (case d_endDate data of
        None \<Rightarrow> data
      | Some v \<Rightarrow>
          if v = Null \<or> v = Str ''null'' \<or> v = Str '''' then data\<lparr>d_endDate := None\<rparr>
          else if truthy v \<and> isNaN_getTime (new_Date parse v) then data\<lparr>d_endDate := None\<rparr>
          else if truthy v then data\<lparr>d_endDate := Some (DateObj (new_Date parse v))\<rparr>
          else data)"

text \<open>Lines 50-70: the role to write, if any.\<close>

definition role_change :: "update_data \<Rightarrow> string option" where
  "role_change data =
     (if d_updateUserRole data = Some True then
        (if d_status data = Some ''active'' \<and> d_isActive data = Some True then Some ''premium''
         else if d_status data = Some ''canceled'' \<and> d_isActive data \<noteq> Some True then Some ''user''
         else None)
      else None)"

definition updateSubscription :: "env \<Rightarrow> uid \<Rightarrow> update_data \<Rightarrow> world \<Rightarrow> (string + subscription) \<times> world" where
  "updateSubscription e u data0 w =
     (let data = clean_endDate (Date_parse e) data0
      in case role_change data of
           Some r \<Rightarrow>
             (case User_findByIdAndUpdate e u r w of
                (Inl msg, w1) \<Rightarrow> (Inl msg, w1)
              | (Inr _, w1) \<Rightarrow> Subscription_findOneAndUpdate e u data w1)
         | None \<Rightarrow> Subscription_findOneAndUpdate e u data w)"

subsection \<open>Errors\<close>

text \<open>
  The errors the service throws, one constructor per \<^verbatim>\<open>throw\<close> of the source:
  \<^item> \<open>AlreadyScheduled d\<close>: "Votre abonnement est deja programme pour annulation le d. ..."
  \<^item> \<open>AlreadyExpired\<close>: "Votre abonnement a deja expire. Vous pouvez souscrire ..."
  \<^item> \<open>NothingToCancel\<close>: "Aucun abonnement a annuler trouve."
  \<^item> \<open>StripeCancelFailed m\<close>: "Echec programmation annulation Stripe: m"
  \<^item> \<open>EndDateUndetermined\<close>: "Impossible de determiner la date de fin d'abonnement"
  \<^item> \<open>SaveCancelFailed m\<close>: "Erreur sauvegarde annulation: m"
  \<^item> \<open>NothingReactivable\<close>: "Aucun abonnement annule reactivable trouve."
  \<^item> \<open>StripeReactivateFailed m\<close>: "Echec reactivation Stripe: m"
  \<^item> \<open>StoreError m\<close>: an error of a store, passed on as it is
  \<^item> \<open>NoActiveSubscription\<close>: "Aucun abonnement actif trouve pour changer le plan."
  \<^item> \<open>AlreadyOnPlan p\<close>: "Vous etes deja sur le plan p."
  \<^item> \<open>StripeChangePlanFailed c\<close>: "Echec changement de plan Stripe: " and the cause's message
  \<^item> \<open>SaveChangePlanFailed m\<close>: "Erreur sauvegarde changement plan: m"
\<close>

datatype change_plan_cause =
    PriceIdUndefined string
  | GatewayError string
  | NoSubscriptionItem

datatype error =
    AlreadyScheduled string
  | AlreadyExpired
  | NothingToCancel
  | StripeCancelFailed string
  | EndDateUndetermined
  | SaveCancelFailed string
  | NothingReactivable
  | StripeReactivateFailed string
  | StoreError string
  | NoActiveSubscription
  | AlreadyOnPlan string
  | StripeChangePlanFailed change_plan_cause
  | SaveChangePlanFailed string

subsection \<open>getCurrentSubscription\<close>

text \<open>\<^verbatim>\<open>Math.max(0, Math.ceil((endDate - now) / (1000 * 60 * 60 * 24)))\<close>\<close>

definition daysRemaining_of :: "int \<Rightarrow> int \<Rightarrow> int" where
  "daysRemaining_of end_ms now_ms = max 0 (- ((now_ms - end_ms) div msPerDay))"

text \<open>The number attached as \<^verbatim>\<open>daysRemaining\<close>: NaN when the stored date is invalid.\<close>

datatype days = Days int | DaysNaN

definition getCurrentSubscription :: "env \<Rightarrow> uid \<Rightarrow> world \<Rightarrow> (subscription \<times> days option) option" where
  "getCurrentSubscription e u w =
     (case Subscription_findOne (\<lambda>s. userId s = u) w of
        None \<Rightarrow> None
      | Some s \<Rightarrow>
          (case endDate s of
             None \<Rightarrow> Some (s, None)
           | Some InvalidDate \<Rightarrow> Some (s, Some DaysNaN)
           | Some (ValidDate t) \<Rightarrow> Some (s, Some (Days (daysRemaining_of t (now e))))))"

subsection \<open>cancelSubscriptionAtPeriodEnd\<close>

text \<open>The end date computed locally: \<^verbatim>\<open>new Date()\<close> moved one year ahead for the annual
  plan, one month ahead for every other plan.\<close>

definition local_endDate :: "env \<Rightarrow> string \<Rightarrow> jsdate" where
  "local_endDate e p =
     (if p = ''annual'' then setFullYear_next (ValidDate (now e))
      else setMonth_next (ValidDate (now e)))"

text \<open>A string field that is set and not empty (what \<^verbatim>\<open>if (subscription.stripeSubscriptionId)\<close>
  tests).\<close>

definition truthy_id :: "string option \<Rightarrow> string option" where
  "truthy_id v = (case v of None \<Rightarrow> None | Some s \<Rightarrow> if s = [] then None else Some s)"

definition unusable :: "jsdate option \<Rightarrow> bool" where
  "unusable d = (case d of None \<Rightarrow> True | Some x \<Rightarrow> isNaN_getTime x)"

text \<open>\<^verbatim>\<open>"fin de p\<close>e-acute\<^verbatim>\<open>riode"\<close>, in UTF-8.\<close>

definition fin_de_periode :: string where
  "fin_de_periode = ''fin de p'' @ [char_of (195 :: nat), char_of (169 :: nat)] @ ''riode''"

text \<open>Lines 389-406: the \<^verbatim>\<open>catch (stripeError)\<close> of the remote part.\<close>

definition cancel_catch :: "env \<Rightarrow> subscription \<Rightarrow> stripe_error \<Rightarrow> error + jsdate option" where
  "cancel_catch e s err =
     (if err_code err = Some ''resource_missing'' then Inr (Some (local_endDate e (plan s)))
      else Inl (StripeCancelFailed (err_message err)))"

text \<open>Lines 357-369: inside the \<^verbatim>\<open>try\<close>, an end date still missing or invalid is computed
  locally.\<close>

definition manual_if_unusable :: "env \<Rightarrow> subscription \<Rightarrow> jsdate option \<Rightarrow> jsdate option" where
  "manual_if_unusable e s d = (if unusable d then Some (local_endDate e (plan s)) else d)"

text \<open>Lines 301-423: the end date, from the gateway when the subscription has a remote id.\<close>

definition cancel_endDate :: "env \<Rightarrow> subscription \<Rightarrow> world \<Rightarrow> (error + jsdate option) \<times> world" where
  "cancel_endDate e s w =
     (case truthy_id (stripeSubscriptionId s) of
        None \<Rightarrow> (Inr (Some (local_endDate e (plan s))), w)
      | Some sid \<Rightarrow>
          (let w1 = log_effect (StripeRetrieve sid) w
           in case stripe_retrieve e sid of
                Inl err \<Rightarrow> (cancel_catch e s err, w1)
              | Inr cur \<Rightarrow>
                  if cancel_at_period_end cur then
                    (Inr (manual_if_unusable e s
                       (case current_period_end cur of
                          None \<Rightarrow> endDate s
                        | Some c \<Rightarrow> if c \<noteq> 0 then Some (TimeClip (c * 1000)) else endDate s)), w1)
                  else
                    (let w2 = log_effect (StripeUpdate sid (SetCancelAtPeriodEnd True)) w1
                     in case stripe_update e sid (SetCancelAtPeriodEnd True) of
                          Inl err \<Rightarrow> (cancel_catch e s err, w2)
                        | Inr upd \<Rightarrow>
                            (Inr (manual_if_unusable e s
                               (case current_period_end upd of
                                  None \<Rightarrow> endDate s
                                | Some c \<Rightarrow>
                                    if c \<noteq> 0 \<and> c > 0 then Some (TimeClip (c * 1000))
                                    else endDate s)), w2))))"

text \<open>Lines 432-440: what the cancellation persists.\<close>

definition cancel_data :: "jsdate \<Rightarrow> update_data" where
  "cancel_data d = no_data\<lparr>d_status := Some ''canceled'', d_isActive := Some True,
     d_endDate := Some (DateObj d), d_cancelationType := Some (Some ''end_of_period''),
     d_updateUserRole := Some False\<rparr>"

text \<open>The result is the persisted document with \<^verbatim>\<open>daysRemaining\<close> attached.\<close>

definition cancelSubscriptionAtPeriodEnd ::
  "env \<Rightarrow> uid \<Rightarrow> world \<Rightarrow> (error + subscription \<times> int) \<times> world" where
  "cancelSubscriptionAtPeriodEnd e u w =
     (case Subscription_findOne (\<lambda>s. userId s = u \<and> status s = ''active'' \<and> isActive s) w of
        None \<Rightarrow>
          (case Subscription_findOne (\<lambda>s. userId s = u \<and> status s = ''canceled'' \<and> isActive s
                   \<and> cancelationType s \<noteq> Some ''immediate'') w of
             Some s \<Rightarrow>
               (Inl (AlreadyScheduled
                  (case endDate s of
                     Some d \<Rightarrow> toLocaleDateString_frFR d
                   | None \<Rightarrow> fin_de_periode)), w)
           | None \<Rightarrow>
               (case Subscription_findOne (\<lambda>s. userId s = u \<and> status s = ''canceled'' \<and> \<not> isActive s) w of
                  Some x \<Rightarrow> (Inl AlreadyExpired, w)
                | None \<Rightarrow> (Inl NothingToCancel, w)))
      | Some s \<Rightarrow>
          (case cancel_endDate e s w of
             (Inl err, w1) \<Rightarrow> (Inl err, w1)
           | (Inr None, w1) \<Rightarrow> (Inl EndDateUndetermined, w1)
           | (Inr (Some InvalidDate), w1) \<Rightarrow> (Inl EndDateUndetermined, w1)
           | (Inr (Some (ValidDate t)), w1) \<Rightarrow>
               (case updateSubscription e u (cancel_data (ValidDate t)) w1 of
                  (Inl msg, w2) \<Rightarrow> (Inl (SaveCancelFailed msg), w2)
                | (Inr doc, w2) \<Rightarrow> (Inr (doc, daysRemaining_of t (now e)), w2))))"

subsection \<open>reactivateSubscription\<close>

definition reactivate_data :: update_data where
  "reactivate_data = no_data\<lparr>d_status := Some ''active'', d_isActive := Some True,
     d_cancelationType := Some None, d_updateUserRole := Some True\<rparr>"

definition reactivate_persist :: "env \<Rightarrow> uid \<Rightarrow> world \<Rightarrow> (error + subscription) \<times> world" where
  "reactivate_persist e u w =
     (case updateSubscription e u reactivate_data w of
        (Inl msg, w1) \<Rightarrow> (Inl (StoreError msg), w1)
      | (Inr doc, w1) \<Rightarrow> (Inr doc, w1))"

definition reactivateSubscription :: "env \<Rightarrow> uid \<Rightarrow> world \<Rightarrow> (error + subscription) \<times> world" where
  "reactivateSubscription e u w =
     (case Subscription_findOne (\<lambda>s. userId s = u \<and> status s = ''canceled'' \<and> isActive s
              \<and> cancelationType s = Some ''end_of_period'') w of
        None \<Rightarrow> (Inl NothingReactivable, w)
      | Some s \<Rightarrow>
          (case truthy_id (stripeSubscriptionId s) of
             None \<Rightarrow> reactivate_persist e u w
           | Some sid \<Rightarrow>
               (let w1 = log_effect (StripeUpdate sid (SetCancelAtPeriodEnd False)) w
                in case stripe_update e sid (SetCancelAtPeriodEnd False) of
                     Inl err \<Rightarrow> (Inl (StripeReactivateFailed (err_message err)), w1)
                   | Inr r \<Rightarrow> reactivate_persist e u w1)))"

subsection \<open>changePlan\<close>

text \<open>Lines 621-634 and 673-680: the new end date, one period ahead of now for the two known
  plans, now itself for any other plan name.\<close>

definition change_effectiveDate :: "env \<Rightarrow> string \<Rightarrow> jsdate" where
  "change_effectiveDate e newPlan =
     (if newPlan = ''annual'' then setFullYear_next (ValidDate (now e))
      else if newPlan = ''monthly'' then setMonth_next (ValidDate (now e))
      else ValidDate (now e))"

definition monthlyPrice :: rat where
  "monthlyPrice = 999 / 100"

definition annualPrice :: rat where
  "annualPrice = 9999 / 100"

text \<open>Lines 636-649. The source computes in binary floating point; the model keeps the same
  expressions in exact arithmetic. The monthly-to-annual amount is -19.89 in both; the
  annual-to-monthly amount is the exact -1.6575 here, where the source's double is rounded.\<close>

definition proration :: "string \<Rightarrow> string \<Rightarrow> rat" where
  "proration oldPlan newPlan =
     (if oldPlan = ''monthly'' \<and> newPlan = ''annual'' then - (monthlyPrice * 12 - annualPrice)
      else if oldPlan = ''annual'' \<and> newPlan = ''monthly'' then annualPrice / 12 - monthlyPrice
      else 0)"

record change_result =
  cr_subscription :: subscription
  cr_oldPlan :: string
  cr_newPlan :: string
  cr_effectiveDate :: jsdate
  cr_prorationAmount :: rat

text \<open>Lines 574-668: the remote part, for a subscription with a remote id. It gives the end
  date and the proration amount, or the cause of the failure.\<close>

definition change_remote ::
  "env \<Rightarrow> string \<Rightarrow> string \<Rightarrow> string \<Rightarrow> world \<Rightarrow> (change_plan_cause + jsdate \<times> rat) \<times> world" where
  "change_remote e sid oldPlan newPlan w =
     (case truthy_id (if newPlan = ''annual'' then STRIPE_PRICE_ANNUAL_ID e
                      else STRIPE_PRICE_MONTHLY_ID e) of
        None \<Rightarrow> (Inl (PriceIdUndefined newPlan), w)
      | Some newPriceId \<Rightarrow>
          (let w1 = log_effect (StripeRetrieve sid) w
           in case stripe_retrieve e sid of
                Inl err \<Rightarrow> (Inl (GatewayError (err_message err)), w1)
              | Inr cur \<Rightarrow>
                  (case item_ids cur of
                     [] \<Rightarrow> (Inl NoSubscriptionItem, w1)
                   | item # rest \<Rightarrow>
                       (let w2 = log_effect (StripeUpdate sid (ChangePrice item newPriceId)) w1
                        in case stripe_update e sid (ChangePrice item newPriceId) of
                             Inl err \<Rightarrow> (Inl (GatewayError (err_message err)), w2)
                           | Inr upd \<Rightarrow>
                               (Inr (change_effectiveDate e newPlan, proration oldPlan newPlan), w2)))))"

definition change_data :: "string \<Rightarrow> jsdate \<Rightarrow> update_data" where
  "change_data newPlan d = no_data\<lparr>d_plan := Some newPlan, d_endDate := Some (DateObj d),
     d_updateUserRole := Some False\<rparr>"

definition change_persist ::
  "env \<Rightarrow> uid \<Rightarrow> string \<Rightarrow> string \<Rightarrow> jsdate \<Rightarrow> rat \<Rightarrow> world \<Rightarrow> (error + change_result) \<times> world" where
  "change_persist e u oldPlan newPlan d amount w =
     (case updateSubscription e u (change_data newPlan d) w of
        (Inl msg, w1) \<Rightarrow> (Inl (SaveChangePlanFailed msg), w1)
      | (Inr doc, w1) \<Rightarrow>
          (Inr \<lparr>cr_subscription = doc, cr_oldPlan = oldPlan, cr_newPlan = newPlan,
                cr_effectiveDate = d, cr_prorationAmount = amount\<rparr>, w1))"

definition changePlan :: "env \<Rightarrow> uid \<Rightarrow> string \<Rightarrow> world \<Rightarrow> (error + change_result) \<times> world" where
  "changePlan e u newPlan w =
     (case Subscription_findOne (\<lambda>s. userId s = u \<and> status s = ''active'' \<and> isActive s) w of
        None \<Rightarrow> (Inl NoActiveSubscription, w)
      | Some s \<Rightarrow>
          if plan s = newPlan then (Inl (AlreadyOnPlan newPlan), w)
          else
            (case truthy_id (stripeSubscriptionId s) of
               Some sid \<Rightarrow>
                 (case change_remote e sid (plan s) newPlan w of
                    (Inl cause, w1) \<Rightarrow> (Inl (StripeChangePlanFailed cause), w1)
                  | (Inr (d, amount), w1) \<Rightarrow> change_persist e u (plan s) newPlan d amount w1)
             | None \<Rightarrow> change_persist e u (plan s) newPlan (change_effectiveDate e newPlan) 0 w))"

section \<open>controllers/webhookController.js\<close>

text \<open>
  A Stripe event: its type and \<^verbatim>\<open>event.data.object\<close>. A handler reads and writes the state
  and returns a value or throws (\<open>Inl\<close> is the message of the error). The handlers call the
  gateway, the stores and the notifier; the dispatcher is modelled for any handlers.
\<close>

record 'o event =
  ev_type :: string
  ev_object :: 'o

type_synonym ('o, 'r, 'w) handler = "'o \<Rightarrow> 'w \<Rightarrow> (string + 'r) \<times> 'w"

text \<open>The static handler methods the class WebhookController defines. It defines no
  \<^verbatim>\<open>handleSubscriptionDeleted\<close>.\<close>

record ('o, 'r, 'w) handlers =
  handleCheckoutSessionCompleted :: "('o, 'r, 'w) handler"
  handleSubscriptionUpdated :: "('o, 'r, 'w) handler"
  handleInvoicePaid :: "('o, 'r, 'w) handler"
  handleInvoicePaymentFailed :: "('o, 'r, 'w) handler"

datatype 'r body =
    HandlerResult 'r
  | ReceivedIgnored
  | ReceivedError string
  | WebhookErrorText string
  | Received
  | MissingSignature
  | InvalidSignature
  | ProcessingFailed string string

record 'r response =
  http_status :: nat
  body :: "'r body"

text \<open>\<^verbatim>\<open>return res.json(await handler(event.data.object))\<close> inside the \<^verbatim>\<open>try\<close>, with the
  \<^verbatim>\<open>catch\<close> of lines 97-100. \<^verbatim>\<open>res.json\<close> answers with status 200.\<close>

definition respond_json :: "(string + 'r) \<times> 'w \<Rightarrow> 'r response \<times> 'w" where
  "respond_json outcome =
     (case outcome of
        (Inr v, w) \<Rightarrow> (\<lparr>http_status = 200, body = HandlerResult v\<rparr>, w)
      | (Inl msg, w) \<Rightarrow> (\<lparr>http_status = 200, body = ReceivedError msg\<rparr>, w))"

text \<open>Calling \<^verbatim>\<open>WebhookController.handleSubscriptionDeleted\<close>, a property the class does not
  have: the call throws a TypeError before anything runs.\<close>

definition handleSubscriptionDeleted_undefined :: "('o, 'r, 'w) handler" where
  "handleSubscriptionDeleted_undefined obj w =
     (Inl ''WebhookController.handleSubscriptionDeleted is not a function'', w)"

text \<open>The \<^verbatim>\<open>switch\<close> on the event type: the handler a type is routed to, if any.\<close>

definition route :: "('o, 'r, 'w) handlers \<Rightarrow> string \<Rightarrow> ('o, 'r, 'w) handler option" where
  "route hs ty =
     (if ty = ''checkout.session.completed'' then Some (handleCheckoutSessionCompleted hs)
      else if ty = ''customer.subscription.deleted'' then Some handleSubscriptionDeleted_undefined
      else if ty = ''customer.subscription.updated'' then Some (handleSubscriptionUpdated hs)
      else if ty = ''invoice.paid'' then Some (handleInvoicePaid hs)
      else if ty = ''invoice.payment_failed'' then Some (handleInvoicePaymentFailed hs)
      else None)"

definition processWebhookEvent :: "('o, 'r, 'w) handlers \<Rightarrow> 'o event \<Rightarrow> 'w \<Rightarrow> 'r response \<times> 'w" where
  "processWebhookEvent hs ev w =
     (case route hs (ev_type ev) of
        Some h \<Rightarrow> respond_json (h (ev_object ev) w)
      | None \<Rightarrow> (\<lparr>http_status = 200, body = ReceivedIgnored\<rparr>, w))"

text \<open>\<^verbatim>\<open>handleStripeWebhook\<close>: the signature check (\<^verbatim>\<open>stripe.webhooks.constructEvent\<close>, a
  parameter: it gives the event or the message of its error), then the dispatch.\<close>

definition handleStripeWebhook ::
  "('q \<Rightarrow> string + 'o event) \<Rightarrow> ('o, 'r, 'w) handlers \<Rightarrow> 'q \<Rightarrow> 'w \<Rightarrow> 'r response \<times> 'w" where
  "handleStripeWebhook constructEvent hs req w =
     (case constructEvent req of
        Inl msg \<Rightarrow> (\<lparr>http_status = 400, body = WebhookErrorText msg\<rparr>, w)
      | Inr ev \<Rightarrow> processWebhookEvent hs ev w)"

section \<open>controllers/webhook.controller.js\<close>

text \<open>The second webhook controller of the repository, the one behind POST /webhooks/stripe.
  Its names carry the suffix \<open>_v1\<close> where they would clash.\<close>

record ('o, 'w) handlers_v1 =
  handlePaymentIntentSucceeded :: "('o, unit, 'w) handler"
  handlePaymentIntentFailed :: "('o, unit, 'w) handler"
  handleSubscriptionCreated :: "('o, unit, 'w) handler"
  handleSubscriptionUpdated_v1 :: "('o, unit, 'w) handler"
  handleSubscriptionDeleted :: "('o, unit, 'w) handler"
  handleInvoicePaymentSucceeded :: "('o, unit, 'w) handler"
  handleInvoicePaymentFailed_v1 :: "('o, unit, 'w) handler"

record request_v1 =
  stripe_signature :: "string option"
  rawBody :: "string option"

text \<open>Lines 42-85: \<^verbatim>\<open>await this.handler(event.data.object)\<close>, then 200; the \<^verbatim>\<open>catch\<close> answers
  500.\<close>

definition respond_v1 :: "string \<Rightarrow> (string + unit) \<times> 'w \<Rightarrow> unit response \<times> 'w" where
  "respond_v1 ty outcome =
     (case outcome of
        (Inr v, w) \<Rightarrow> (\<lparr>http_status = 200, body = Received\<rparr>, w)
      | (Inl msg, w) \<Rightarrow> (\<lparr>http_status = 500, body = ProcessingFailed ty msg\<rparr>, w))"

text \<open>The methods the \<^verbatim>\<open>switch\<close> on the event type calls, their names, and the method of an
  instance.\<close>

datatype method_v1 =
    PaymentIntentSucceeded
  | PaymentIntentFailed
  | SubscriptionCreated
  | SubscriptionUpdated
  | SubscriptionDeleted
  | InvoicePaymentSucceeded
  | InvoicePaymentFailed

fun method_name :: "method_v1 \<Rightarrow> string" where
  "method_name PaymentIntentSucceeded = ''handlePaymentIntentSucceeded''"
| "method_name PaymentIntentFailed = ''handlePaymentIntentFailed''"
| "method_name SubscriptionCreated = ''handleSubscriptionCreated''"
| "method_name SubscriptionUpdated = ''handleSubscriptionUpdated''"
| "method_name SubscriptionDeleted = ''handleSubscriptionDeleted''"
| "method_name InvoicePaymentSucceeded = ''handleInvoicePaymentSucceeded''"
| "method_name InvoicePaymentFailed = ''handleInvoicePaymentFailed''"

fun method_of :: "('o, 'w) handlers_v1 \<Rightarrow> method_v1 \<Rightarrow> ('o, unit, 'w) handler" where
  "method_of hs PaymentIntentSucceeded = handlePaymentIntentSucceeded hs"
| "method_of hs PaymentIntentFailed = handlePaymentIntentFailed hs"
| "method_of hs SubscriptionCreated = handleSubscriptionCreated hs"
| "method_of hs SubscriptionUpdated = handleSubscriptionUpdated_v1 hs"
| "method_of hs SubscriptionDeleted = handleSubscriptionDeleted hs"
| "method_of hs InvoicePaymentSucceeded = handleInvoicePaymentSucceeded hs"
| "method_of hs InvoicePaymentFailed = handleInvoicePaymentFailed_v1 hs"

definition route_v1 :: "string \<Rightarrow> method_v1 option" where
  "route_v1 ty =
     (if ty = ''payment_intent.succeeded'' then Some PaymentIntentSucceeded
      else if ty = ''payment_intent.payment_failed'' then Some PaymentIntentFailed
      else if ty = ''customer.subscription.created'' then Some SubscriptionCreated
      else if ty = ''customer.subscription.updated'' then Some SubscriptionUpdated
      else if ty = ''customer.subscription.deleted'' then Some SubscriptionDeleted
      else if ty = ''invoice.payment_succeeded'' then Some InvoicePaymentSucceeded
      else if ty = ''invoice.payment_failed'' then Some InvoicePaymentFailed
      else None)"

text \<open>The message of the TypeError that reading a property of \<^verbatim>\<open>undefined\<close> throws.\<close>

definition undefined_receiver :: "string \<Rightarrow> string" where
  "undefined_receiver name =
     ''Cannot read properties of undefined (reading '' @ [CHR 0x27] @ name @ [CHR 0x27] @ '')''"

text \<open>\<^verbatim>\<open>this.handler(event.data.object)\<close>: the method is read from the receiver \<^verbatim>\<open>this\<close>. A
  call of handleStripeWebhook on its instance has the instance's handlers for receiver
  (\<open>Some\<close>); a call of the bare function has none (\<open>None\<close>), and reading the method throws
  before any handler runs.\<close>

definition this_method :: "('o, 'w) handlers_v1 option \<Rightarrow> method_v1 \<Rightarrow> ('o, unit, 'w) handler" where
  "this_method this m obj w =
     (case this of
        None \<Rightarrow> (Inl (undefined_receiver (method_name m)), w)
      | Some hs \<Rightarrow> method_of hs m obj w)"

definition dispatch_v1 :: "('o, 'w) handlers_v1 option \<Rightarrow> 'o event \<Rightarrow> 'w \<Rightarrow> unit response \<times> 'w" where
  "dispatch_v1 this ev w =
     (case route_v1 (ev_type ev) of
        Some m \<Rightarrow> respond_v1 (ev_type ev) (this_method this m (ev_object ev) w)
      | None \<Rightarrow> (\<lparr>http_status = 200, body = Received\<rparr>, w))"

definition handleStripeWebhook_v1 ::
  "(string \<Rightarrow> string \<Rightarrow> string + 'o event) \<Rightarrow> ('o, 'w) handlers_v1 option \<Rightarrow> request_v1 \<Rightarrow> 'w
     \<Rightarrow> unit response \<times> 'w" where
  "handleStripeWebhook_v1 constructWebhookEvent this req w =
     (case (truthy_id (stripe_signature req), truthy_id (rawBody req)) of
        (Some sig, Some raw) \<Rightarrow>
          (case constructWebhookEvent raw sig of
             Inl msg \<Rightarrow> (\<lparr>http_status = 400, body = InvalidSignature\<rparr>, w)
           | Inr ev \<Rightarrow> dispatch_v1 this ev w)
      | _ \<Rightarrow> (\<lparr>http_status = 400, body = MissingSignature\<rparr>, w))"

text \<open>routes/webhook.routes.js, line 42:
  \<^verbatim>\<open>router.post('/stripe', webhookController.handleStripeWebhook)\<close> registers the method as a
  bare function, so the router calls it with no receiver.\<close>

definition post_webhooks_stripe ::
  "(string \<Rightarrow> string \<Rightarrow> string + 'o event) \<Rightarrow> request_v1 \<Rightarrow> 'w \<Rightarrow> unit response \<times> 'w" where
  "post_webhooks_stripe constructWebhookEvent req w =
     handleStripeWebhook_v1 constructWebhookEvent (None :: ('o, 'w) handlers_v1 option) req w"

text \<open>Lines 360-410: \<^verbatim>\<open>handleSubscriptionDeleted\<close> of this controller, on the documents of
  models/subscription.model.js. The calls to the user service and the mailer sit in their
  own \<^verbatim>\<open>try\<close>/\<^verbatim>\<open>catch\<close> and change nothing here; they are logged as attempted.\<close>

record subscription_v1 =
  v1_userId :: uid
  v1_stripeSubscriptionId :: string
  v1_planName :: string
  v1_status :: string
  v1_currentPeriodEnd :: jsdate
  v1_canceledAt :: "jsdate option"

datatype effect_v1 =
    SaveSubscription string
  | UpdateUserSubscription uid string
  | GetUserById uid

record world_v1 =
  v1_subscriptions :: "subscription_v1 list"
  v1_effects :: "effect_v1 list"

record env_v1 =
  v1_now :: int
  v1_save_fails :: "string option"

definition handleSubscriptionDeleted_v1 :: "env_v1 \<Rightarrow> (string, unit, world_v1) handler" where
  "handleSubscriptionDeleted_v1 e sid w =
     (case find (\<lambda>s. v1_stripeSubscriptionId s = sid) (v1_subscriptions w) of
        None \<Rightarrow> (Inr (), w)
      | Some s \<Rightarrow>
          (let s' = s\<lparr>v1_status := ''canceled'', v1_canceledAt := Some (ValidDate (v1_now e))\<rparr>;
               w1 = w\<lparr>v1_effects := v1_effects w @ [SaveSubscription sid]\<rparr>
           in case v1_save_fails e of
                Some msg \<Rightarrow> (Inl msg, w1)
              | None \<Rightarrow>
                  (Inr (), w1\<lparr>v1_subscriptions :=
                              replace_first (\<lambda>s. v1_stripeSubscriptionId s = sid) s' (v1_subscriptions w1),
                            v1_effects := v1_effects w1 @
                              [UpdateUserSubscription (v1_userId s') ''canceled'', GetUserById (v1_userId s')]\<rparr>)))"

section \<open>Observations and sample data for the statements\<close>

text \<open>The role writes among the logged effects, in order.\<close>

fun role_writes :: "effect list \<Rightarrow> (uid \<times> string) list" where
  "role_writes [] = []"
| "role_writes (RoleWrite u r # es) = (u, r) # role_writes es"
| "role_writes (x # es) = role_writes es"

text \<open>The calls to the payment gateway among the logged effects, in order.\<close>

fun remote_calls :: "effect list \<Rightarrow> effect list" where
  "remote_calls [] = []"
| "remote_calls (StripeRetrieve i # es) = StripeRetrieve i # remote_calls es"
| "remote_calls (StripeUpdate i r # es) = StripeUpdate i r # remote_calls es"
| "remote_calls (x # es) = remote_calls es"

text \<open>The writes to the two stores among the logged effects, in order.\<close>

fun store_writes :: "effect list \<Rightarrow> effect list" where
  "store_writes [] = []"
| "store_writes (RoleWrite u r # es) = RoleWrite u r # store_writes es"
| "store_writes (SubscriptionWrite u # es) = SubscriptionWrite u # store_writes es"
| "store_writes (x # es) = store_writes es"

text \<open>An end date as the specification calls malformed: null, the string "null", the empty
  string, or a value that is no date.\<close>

definition malformed_endDate :: "(string \<Rightarrow> jsdate) \<Rightarrow> jsval \<Rightarrow> bool" where
  "malformed_endDate parse v =
     (v = Null \<or> v = Str ''null'' \<or> v = Str [] \<or> isNaN_getTime (new_Date parse v))"

text \<open>The filters of the lookups, by name.\<close>

definition active_of :: "uid \<Rightarrow> subscription \<Rightarrow> bool" where
  "active_of u s = (userId s = u \<and> status s = ''active'' \<and> isActive s)"

definition scheduled_of :: "uid \<Rightarrow> subscription \<Rightarrow> bool" where
  "scheduled_of u s =
     (userId s = u \<and> status s = ''canceled'' \<and> isActive s \<and> cancelationType s \<noteq> Some ''immediate'')"

definition expired_of :: "uid \<Rightarrow> subscription \<Rightarrow> bool" where
  "expired_of u s = (userId s = u \<and> status s = ''canceled'' \<and> \<not> isActive s)"

definition reactivable_of :: "uid \<Rightarrow> subscription \<Rightarrow> bool" where
  "reactivable_of u s =
     (userId s = u \<and> status s = ''canceled'' \<and> isActive s \<and> cancelationType s = Some ''end_of_period'')"

text \<open>The error of the remote part of a cancellation, if one of its calls fails: the
  retrieval, or the update issued when the remote subscription is not yet scheduled.\<close>

definition cancel_remote_error :: "env \<Rightarrow> string \<Rightarrow> stripe_error option" where
  "cancel_remote_error e sid =
     (case stripe_retrieve e sid of
        Inl err \<Rightarrow> Some err
      | Inr cur \<Rightarrow>
          if cancel_at_period_end cur then None
          else (case stripe_update e sid (SetCancelAtPeriodEnd True) of
                  Inl err \<Rightarrow> Some err
                | Inr upd \<Rightarrow> None))"

text \<open>The outcome "the cancellation is persisted with end date \<open>t\<close>": the operation returns
  the document with the days remaining until \<open>t\<close>, the document is the one read back for the
  user, and it is canceled, still active, canceled at period end, with end date \<open>t\<close>.\<close>

definition persisted_canceled_at :: "env \<Rightarrow> uid \<Rightarrow> world \<Rightarrow> int \<Rightarrow> bool" where
  "persisted_canceled_at e u w t =
     (case cancelSubscriptionAtPeriodEnd e u w of
        (Inl err, w') \<Rightarrow> False
      | (Inr (doc, n), w') \<Rightarrow>
          n = daysRemaining_of t (now e)
          \<and> Subscription_findOne (\<lambda>s. userId s = u) w' = Some doc
          \<and> endDate doc = Some (ValidDate t) \<and> status doc = ''canceled'' \<and> isActive doc
          \<and> cancelationType doc = Some ''end_of_period'')"

text \<open>Sample data: the clock reads 2024-01-15 10:00:00 UTC; the date parser takes no string
  for a date (the samples hand over Date objects); the gateway is unreachable, reports a
  missing resource, or answers; user u1 has a monthly subscription that started on
  2023-12-15, without (\<open>sub0\<close>) or with (\<open>sub1\<close>) a remote id.\<close>

definition gateway_down :: stripe_error where
  "gateway_down = \<lparr>err_code = Some ''api_connection_error'', err_message = ''unreachable''\<rparr>"

definition gateway_missing :: stripe_error where
  "gateway_missing = \<lparr>err_code = Some ''resource_missing'', err_message = ''No such subscription''\<rparr>"

definition env0 :: env where
  "env0 = \<lparr>now = 1705312800000, Date_parse = (\<lambda>s. InvalidDate),
     stripe_retrieve = (\<lambda>i. Inl gateway_down),
     stripe_update = (\<lambda>i r. Inl gateway_down),
     user_write_fails = None, subscription_write_fails = None,
     STRIPE_PRICE_ANNUAL_ID = Some ''price_annual'', STRIPE_PRICE_MONTHLY_ID = Some ''price_monthly''\<rparr>"

definition remote_sub :: "bool \<Rightarrow> int option \<Rightarrow> stripe_subscription" where
  "remote_sub c p = \<lparr>sub_id = ''sub_1'', cancel_at_period_end = c, current_period_end = p,
     item_ids = [''si_1'']\<rparr>"

definition env_scheduled :: env where
  "env_scheduled = env0\<lparr>stripe_retrieve := (\<lambda>i. Inr (remote_sub True (Some 1707991200)))\<rparr>"

definition env_epoch :: env where
  "env_epoch = env0\<lparr>stripe_retrieve := (\<lambda>i. Inr (remote_sub True (Some 0)))\<rparr>"

definition env_absent :: env where
  "env_absent = env0\<lparr>stripe_retrieve := (\<lambda>i. Inr (remote_sub True None))\<rparr>"

definition env_far :: env where
  "env_far = env0\<lparr>stripe_retrieve := (\<lambda>i. Inr (remote_sub True (Some 8640000000001)))\<rparr>"

definition env_missing :: env where
  "env_missing = env0\<lparr>stripe_retrieve := (\<lambda>i. Inl gateway_missing)\<rparr>"

definition env_ok :: env where
  "env_ok = env0\<lparr>stripe_retrieve := (\<lambda>i. Inr (remote_sub False (Some 1707991200))),
     stripe_update := (\<lambda>i r. Inr (remote_sub False (Some 1707991200)))\<rparr>"

definition env_store_down :: env where
  "env_store_down = env0\<lparr>subscription_write_fails := Some ''store unavailable''\<rparr>"

definition sub0 :: subscription where
  "sub0 = \<lparr>userId = ''u1'', plan = ''monthly'', startDate = ValidDate 1702634400000,
     endDate = Some (ValidDate 1705312800000), isActive = True, status = ''active'',
     cancelationType = None, stripeCustomerId = Some ''cus_1'', stripeSubscriptionId = None,
     stripePriceId = None, updatedAt = 1702634400000\<rparr>"

definition sub1 :: subscription where
  "sub1 = sub0\<lparr>stripeSubscriptionId := Some ''sub_1''\<rparr>"

definition world0 :: world where
  "world0 = \<lparr>subscriptions = [sub0], roles = [(''u1'', ''user'')], effects = []\<rparr>"


text \<open>More sample data: a cancellation scheduled for 2024-02-15, one that has expired, one
  that was immediate, and an annual subscription.\<close>

definition sub_scheduled :: subscription where
  "sub_scheduled = sub1\<lparr>status := ''canceled'', cancelationType := Some ''end_of_period'',
     endDate := Some (ValidDate 1707991200000)\<rparr>"

definition sub_expired :: subscription where
  "sub_expired = sub_scheduled\<lparr>isActive := False, endDate := Some (ValidDate 1700000000000)\<rparr>"

definition sub_immediate :: subscription where
  "sub_immediate = sub1\<lparr>status := ''canceled'', isActive := False,
     cancelationType := Some ''immediate''\<rparr>"

definition world_of :: "subscription list \<Rightarrow> world" where
  "world_of subs = \<lparr>subscriptions = subs, roles = [(''u1'', ''premium'')], effects = []\<rparr>"

text \<open>Sample data for the webhook controllers: handlers of which the checkout handler throws
  (as it does for a session without a user id), a document of the second subscription model,
  and a signed "customer.subscription.deleted" event for it.\<close>

definition sample_handlers :: "(string, unit, world) handlers" where
  "sample_handlers = \<lparr>handleCheckoutSessionCompleted = (\<lambda>obj w. (Inl ''User ID manquant dans metadata'', w)),
     handleSubscriptionUpdated = (\<lambda>obj w. (Inr (), w)),
     handleInvoicePaid = (\<lambda>obj w. (Inr (), w)),
     handleInvoicePaymentFailed = (\<lambda>obj w. (Inr (), w))\<rparr>"

definition sample_handlers_v1 :: "env_v1 \<Rightarrow> (string, world_v1) handlers_v1" where
  "sample_handlers_v1 e = \<lparr>handlePaymentIntentSucceeded = (\<lambda>obj w. (Inr (), w)),
     handlePaymentIntentFailed = (\<lambda>obj w. (Inr (), w)),
     handleSubscriptionCreated = (\<lambda>obj w. (Inr (), w)),
     handleSubscriptionUpdated_v1 = (\<lambda>obj w. (Inr (), w)),
     handleSubscriptionDeleted = handleSubscriptionDeleted_v1 e,
     handleInvoicePaymentSucceeded = (\<lambda>obj w. (Inr (), w)),
     handleInvoicePaymentFailed_v1 = (\<lambda>obj w. (Inr (), w))\<rparr>"

definition sub_v1 :: subscription_v1 where
  "sub_v1 = \<lparr>v1_userId = ''u1'', v1_stripeSubscriptionId = ''sub_1'', v1_planName = ''Plan standard'',
     v1_status = ''active'', v1_currentPeriodEnd = ValidDate 1707991200000, v1_canceledAt = None\<rparr>"

definition world_v1_0 :: world_v1 where
  "world_v1_0 = \<lparr>v1_subscriptions = [sub_v1], v1_effects = []\<rparr>"

definition env_v1_down :: env_v1 where
  "env_v1_down = \<lparr>v1_now = 1705312800000, v1_save_fails = Some ''store unavailable''\<rparr>"

definition deleted_event :: "string event" where
  "deleted_event = \<lparr>ev_type = ''customer.subscription.deleted'', ev_object = ''sub_1''\<rparr>"

definition signed_request :: request_v1 where
  "signed_request = \<lparr>stripe_signature = Some ''t=1,v1=5257a869'', rawBody = Some ''{}''\<rparr>"

section \<open>Facts about the stores\<close>

lemma role_writes_append: "role_writes (xs @ ys) = role_writes xs @ role_writes ys"
  by (induction xs rule: role_writes.induct) simp_all

lemma remote_calls_append: "remote_calls (xs @ ys) = remote_calls xs @ remote_calls ys"
  by (induction xs rule: remote_calls.induct) simp_all

lemma find_replace_first:
  "find P xs = Some x \<Longrightarrow> P y \<Longrightarrow> find P (replace_first P y xs) = Some y"
  by (induction xs) (auto split: if_splits)

lemma find_append_new: "find P xs = None \<Longrightarrow> P y \<Longrightarrow> find P (xs @ [y]) = Some y"
  by (induction xs) (auto split: if_splits)

lemma find_userId: "find (\<lambda>s. userId s = u) xs = Some s \<Longrightarrow> userId s = u"
  by (induction xs) (auto split: if_splits)

lemma userId_apply_update: "userId (apply_update p n upd s) = userId s"
  by (simp add: apply_update_def)

text \<open>The role store after a role write: the entry of the user, when there is one, holds the
  new role; every other entry is as before.\<close>

lemma set_role_entry: "map_of (set_role u r rs) u = map_option (\<lambda>old. r) (map_of rs u)"
  by (induction rs) (auto simp add: set_role_def)

lemma set_role_others: "k \<noteq> u \<Longrightarrow> map_of (set_role u r rs) k = map_of rs k"
  by (induction rs) (auto simp add: set_role_def)

lemma findOneAndUpdate_roles:
  "roles (snd (Subscription_findOneAndUpdate e u d w)) = roles w"
  by (simp add: Subscription_findOneAndUpdate_def log_effect_def Let_def split: option.splits)

lemma findOneAndUpdate_effects:
  "effects (snd (Subscription_findOneAndUpdate e u d w)) = effects w @ [SubscriptionWrite u]"
  by (simp add: Subscription_findOneAndUpdate_def log_effect_def Let_def split: option.splits)

lemma findOneAndUpdate_fails:
  "subscription_write_fails e = Some msg \<Longrightarrow>
   Subscription_findOneAndUpdate e u d w = (Inl msg, log_effect (SubscriptionWrite u) w)"
  by (simp add: Subscription_findOneAndUpdate_def Let_def)

lemma findOneAndUpdate_readback:
  assumes "Subscription_findOneAndUpdate e u d w = (Inr doc, w')"
  shows "Subscription_findOne (\<lambda>s. userId s = u) w' = Some doc"
proof (cases "find (\<lambda>s. userId s = u) (subscriptions w)")
  case None
  then show ?thesis
    using assms
    by (auto simp add: Subscription_findOneAndUpdate_def Subscription_findOne_def log_effect_def
        Let_def find_append_new userId_apply_update new_document_def split: option.splits)
next
  case (Some s)
  have "userId s = u"
    using find_userId [OF Some] .
  then have key: "find (\<lambda>s. userId s = u)
      (replace_first (\<lambda>s. userId s = u)
         (apply_update (Date_parse e) (now e) (pre_findOneAndUpdate (Date_parse e) d) s)
         (subscriptions w)) =
      Some (apply_update (Date_parse e) (now e) (pre_findOneAndUpdate (Date_parse e) d) s)"
    using find_replace_first [OF Some] by (simp add: userId_apply_update)
  show ?thesis
    using assms Some key
    by (auto simp add: Subscription_findOneAndUpdate_def Subscription_findOne_def log_effect_def
        Let_def split: option.splits)
qed

lemma findOneAndUpdate_endDate_kept:
  assumes "Subscription_findOneAndUpdate e u d w = (Inr doc, w')"
    and "d_endDate (pre_findOneAndUpdate (Date_parse e) d) = None"
  shows "endDate doc =
    (case Subscription_findOne (\<lambda>s. userId s = u) w of None \<Rightarrow> None | Some s \<Rightarrow> endDate s)"
  using assms
  by (auto simp add: Subscription_findOneAndUpdate_def Subscription_findOne_def log_effect_def Let_def
      apply_update_def new_document_def split: option.splits)

lemma findOneAndUpdate_doc:
  assumes "Subscription_findOneAndUpdate e u d w = (Inr doc, w')"
  shows "\<exists>s0. doc = apply_update (Date_parse e) (now e) (pre_findOneAndUpdate (Date_parse e) d) s0"
  using assms
  by (auto simp add: Subscription_findOneAndUpdate_def Let_def split: option.splits)

lemma findOneAndUpdate_succeeds:
  assumes "subscription_write_fails e = None"
  shows "\<exists>doc w'. Subscription_findOneAndUpdate e u d w = (Inr doc, w')"
  using assms
  by (simp add: Subscription_findOneAndUpdate_def Let_def split: option.splits)

section \<open>updateSubscription\<close>

lemma clean_endDate_fields:
  "d_status (clean_endDate p d) = d_status d"
  "d_isActive (clean_endDate p d) = d_isActive d"
  "d_updateUserRole (clean_endDate p d) = d_updateUserRole d"
  "d_plan (clean_endDate p d) = d_plan d"
  "d_cancelationType (clean_endDate p d) = d_cancelationType d"
  by (simp_all add: clean_endDate_def split: option.splits)

lemma role_change_clean: "role_change (clean_endDate p d) = role_change d"
  by (simp add: role_change_def clean_endDate_fields)

lemma updateSubscription_roles:
  "roles (snd (updateSubscription e u data w)) =
     (case role_change data of
        None \<Rightarrow> roles w
      | Some r \<Rightarrow> if user_write_fails e = None then set_role u r (roles w) else roles w)"
  by (auto simp add: updateSubscription_def Let_def role_change_clean User_findByIdAndUpdate_def
      log_effect_def findOneAndUpdate_roles split: option.splits)

lemma updateSubscription_effects:
  "effects (snd (updateSubscription e u data w)) =
     effects w @
     (case role_change data of None \<Rightarrow> [] | Some r \<Rightarrow> [RoleWrite u r]) @
     (if role_change data \<noteq> None \<and> user_write_fails e \<noteq> None then [] else [SubscriptionWrite u])"
  by (auto simp add: updateSubscription_def Let_def role_change_clean User_findByIdAndUpdate_def
      log_effect_def findOneAndUpdate_effects split: option.splits)

lemma updateSubscription_unfold:
  "updateSubscription e u data w = (Inr doc, w') \<Longrightarrow>
   \<exists>w1. Subscription_findOneAndUpdate e u (clean_endDate (Date_parse e) data) w1 = (Inr doc, w')
      \<and> subscriptions w1 = subscriptions w"
  by (auto simp add: updateSubscription_def Let_def User_findByIdAndUpdate_def log_effect_def
      split: option.splits sum.splits prod.splits)

lemma updateSubscription_no_role:
  "role_change data = None \<Longrightarrow>
   updateSubscription e u data w =
     Subscription_findOneAndUpdate e u (clean_endDate (Date_parse e) data) w"
  by (simp add: updateSubscription_def Let_def role_change_clean)

lemma hook_after_clean_malformed:
  "d_endDate data = Some v \<Longrightarrow> malformed_endDate p v \<Longrightarrow>
   d_endDate (pre_findOneAndUpdate p (clean_endDate p data)) = None"
  by (auto simp add: malformed_endDate_def pre_findOneAndUpdate_def clean_endDate_def
      split: option.splits)

lemma role_change_cancel_data: "role_change (cancel_data d) = None"
  by (simp add: role_change_def cancel_data_def no_data_def)

lemma cancel_endDate_roles: "roles (snd (cancel_endDate e s w)) = roles w"
  by (simp add: cancel_endDate_def log_effect_def Let_def split: option.splits sum.splits)

lemma cancel_endDate_subscriptions: "subscriptions (snd (cancel_endDate e s w)) = subscriptions w"
  by (simp add: cancel_endDate_def log_effect_def Let_def split: option.splits sum.splits)

lemma cancel_endDate_role_writes:
  "role_writes (effects (snd (cancel_endDate e s w))) = role_writes (effects w)"
  by (simp add: cancel_endDate_def log_effect_def Let_def role_writes_append
      split: option.splits sum.splits)

text \<open>A cancellation changes the world only through the remote part and the persist step.\<close>

lemma cancel_frame:
  assumes remote: "\<And>s w0. f (snd (cancel_endDate e s w0)) = f w0"
    and persist: "\<And>d w0. f (snd (updateSubscription e u (cancel_data d) w0)) = f w0"
  shows "f (snd (cancelSubscriptionAtPeriodEnd e u w)) = f w"
proof (cases "Subscription_findOne (\<lambda>s. userId s = u \<and> status s = ''active'' \<and> isActive s) w")
  case None
  then show ?thesis
    by (simp add: cancelSubscriptionAtPeriodEnd_def split: option.splits)
next
  case (Some s)
  obtain r w1 where r: "cancel_endDate e s w = (r, w1)"
    by (cases "cancel_endDate e s w")
  have w1: "f w1 = f w"
    using remote [of s w] r by simp
  show ?thesis
  proof (cases r)
    case (Inl err)
    then show ?thesis
      using Some r w1 by (simp add: cancelSubscriptionAtPeriodEnd_def)
  next
    case (Inr d)
    show ?thesis
    proof (cases d)
      case None
      then show ?thesis
        using Some r w1 Inr by (simp add: cancelSubscriptionAtPeriodEnd_def)
    next
      case (Some x)
      note dx = this
      show ?thesis
      proof (cases x)
        case InvalidDate
        then show ?thesis
          using \<open>Subscription_findOne _ w = Some s\<close> r w1 Inr dx
          by (simp add: cancelSubscriptionAtPeriodEnd_def)
      next
        case (ValidDate t)
        obtain q w2 where q: "updateSubscription e u (cancel_data (ValidDate t)) w1 = (q, w2)"
          by (cases "updateSubscription e u (cancel_data (ValidDate t)) w1")
        have "f w2 = f w1"
          using persist [of "ValidDate t" w1] q by simp
        then show ?thesis
          using \<open>Subscription_findOne _ w = Some s\<close> r w1 Inr dx ValidDate q
          by (cases q) (simp_all add: cancelSubscriptionAtPeriodEnd_def)
      qed
    qed
  qed
qed

lemma cancel_roles: "roles (snd (cancelSubscriptionAtPeriodEnd e u w)) = roles w"
  by (rule cancel_frame) (simp_all add: cancel_endDate_roles updateSubscription_roles role_change_cancel_data)

lemma cancel_role_writes:
  "role_writes (effects (snd (cancelSubscriptionAtPeriodEnd e u w))) = role_writes (effects w)"
  by (rule cancel_frame [where f = "\<lambda>w. role_writes (effects w)"])
     (simp_all add: cancel_endDate_role_writes updateSubscription_effects role_change_cancel_data
        role_writes_append)

text \<open>
  C7. With \<^verbatim>\<open>updateUserRole\<close> true, updateSubscription writes the role "premium" exactly when
  the data has status "active" and a true isActive, and the role "user" exactly when the data
  has status "canceled" and no true isActive; in every other case it writes no role and the
  role store is as before. A cancellation at period end writes no role and leaves the role
  store as it was.
\<close>

theorem role_written_exactly_on_entitlement_change:
  "role_writes (effects (snd (updateSubscription e u data w))) =
     role_writes (effects w) @
       (if d_updateUserRole data = Some True \<and> d_status data = Some ''active''
            \<and> d_isActive data = Some True
        then [(u, ''premium'')]
        else if d_updateUserRole data = Some True \<and> d_status data = Some ''canceled''
            \<and> d_isActive data \<noteq> Some True
        then [(u, ''user'')]
        else [])
   \<and> roles (snd (updateSubscription e u data w)) =
       (if user_write_fails e = None \<and> d_updateUserRole data = Some True
            \<and> d_status data = Some ''active'' \<and> d_isActive data = Some True
        then set_role u ''premium'' (roles w)
        else if user_write_fails e = None \<and> d_updateUserRole data = Some True
            \<and> d_status data = Some ''canceled'' \<and> d_isActive data \<noteq> Some True
        then set_role u ''user'' (roles w)
        else roles w)
   \<and> role_writes (effects (snd (cancelSubscriptionAtPeriodEnd e u w))) = role_writes (effects w)
   \<and> roles (snd (cancelSubscriptionAtPeriodEnd e u w)) = roles w"
proof -
  have a: "role_writes (effects (snd (updateSubscription e u data w))) =
     role_writes (effects w) @
       (if d_updateUserRole data = Some True \<and> d_status data = Some ''active''
            \<and> d_isActive data = Some True
        then [(u, ''premium'')]
        else if d_updateUserRole data = Some True \<and> d_status data = Some ''canceled''
            \<and> d_isActive data \<noteq> Some True
        then [(u, ''user'')]
        else [])"
    by (simp add: updateSubscription_effects role_writes_append role_change_def)
  have b: "roles (snd (updateSubscription e u data w)) =
       (if user_write_fails e = None \<and> d_updateUserRole data = Some True
            \<and> d_status data = Some ''active'' \<and> d_isActive data = Some True
        then set_role u ''premium'' (roles w)
        else if user_write_fails e = None \<and> d_updateUserRole data = Some True
            \<and> d_status data = Some ''canceled'' \<and> d_isActive data \<noteq> Some True
        then set_role u ''user'' (roles w)
        else roles w)"
    by (simp add: updateSubscription_roles role_change_def)
  show ?thesis
    using a b cancel_role_writes [of e u w] cancel_roles [of e u w] by blast
qed

text \<open>
  C10. When updateSubscription has a role to write, the role write is issued before the
  subscription write; when the subscription write then fails, the call fails with the
  store's error, the subscription store is unchanged and the role store keeps the new role.
\<close>

theorem role_write_precedes_and_survives_failed_persist:
  assumes "d_updateUserRole data = Some True"
    and "(d_status data = Some ''active'' \<and> d_isActive data = Some True \<and> r = ''premium'')
       \<or> (d_status data = Some ''canceled'' \<and> d_isActive data \<noteq> Some True \<and> r = ''user'')"
    and "user_write_fails e = None"
  shows "effects (snd (updateSubscription e u data w)) =
           effects w @ [RoleWrite u r, SubscriptionWrite u]
       \<and> (subscription_write_fails e = Some msg \<longrightarrow>
            fst (updateSubscription e u data w) = Inl msg
          \<and> subscriptions (snd (updateSubscription e u data w)) = subscriptions w
          \<and> roles (snd (updateSubscription e u data w)) = set_role u r (roles w))"
proof -
  have rc: "role_change data = Some r"
    using assms(1,2) by (auto simp add: role_change_def)
  have eff: "effects (snd (updateSubscription e u data w)) =
      effects w @ [RoleWrite u r, SubscriptionWrite u]"
    using rc assms(3) by (simp add: updateSubscription_effects)
  have rl: "roles (snd (updateSubscription e u data w)) = set_role u r (roles w)"
    using rc assms(3) by (simp add: updateSubscription_roles)
  have fl: "fst (updateSubscription e u data w) = Inl msg
      \<and> subscriptions (snd (updateSubscription e u data w)) = subscriptions w"
    if "subscription_write_fails e = Some msg"
    using rc assms(3) that
    by (simp add: updateSubscription_def Let_def role_change_clean User_findByIdAndUpdate_def
        findOneAndUpdate_fails log_effect_def)
  show ?thesis using eff rl fl by blast
qed

theorem role_write_precedes_and_survives_failed_persist_witness:
  "effects (snd (updateSubscription env_store_down ''u1''
       (no_data\<lparr>d_status := Some ''active'', d_isActive := Some True, d_updateUserRole := Some True\<rparr>)
       world0)) = [RoleWrite ''u1'' ''premium'', SubscriptionWrite ''u1'']
   \<and> fst (updateSubscription env_store_down ''u1''
       (no_data\<lparr>d_status := Some ''active'', d_isActive := Some True, d_updateUserRole := Some True\<rparr>)
       world0) = Inl ''store unavailable''
   \<and> subscriptions (snd (updateSubscription env_store_down ''u1''
       (no_data\<lparr>d_status := Some ''active'', d_isActive := Some True, d_updateUserRole := Some True\<rparr>)
       world0)) = [sub0]
   \<and> roles (snd (updateSubscription env_store_down ''u1''
       (no_data\<lparr>d_status := Some ''active'', d_isActive := Some True, d_updateUserRole := Some True\<rparr>)
       world0)) = [(''u1'', ''premium'')]"
  using role_write_precedes_and_survives_failed_persist
    [of "no_data\<lparr>d_status := Some ''active'', d_isActive := Some True, d_updateUserRole := Some True\<rparr>"
        "''premium''" env_store_down "''u1''" world0 "''store unavailable''"]
  by (simp add: no_data_def env_store_down_def env0_def world0_def set_role_def)

lemma update_world0_empty_endDate:
  "updateSubscription env0 ''u1'' (no_data\<lparr>d_endDate := Some (Str [])\<rparr>) world0 =
     (Inr (sub0\<lparr>updatedAt := 1705312800000\<rparr>),
      \<lparr>subscriptions = [sub0\<lparr>updatedAt := 1705312800000\<rparr>], roles = [(''u1'', ''user'')],
       effects = [SubscriptionWrite ''u1'']\<rparr>)"
  by (simp add: updateSubscription_def Subscription_findOneAndUpdate_def Subscription_findOne_def
      clean_endDate_def pre_findOneAndUpdate_def role_change_def env0_def world0_def sub0_def
      no_data_def log_effect_def apply_update_def set_field_def Let_def)

lemma update_world0_new_user:
  "updateSubscription env0 ''u2'' (no_data\<lparr>d_endDate := Some (Str ''Invalid Date'')\<rparr>) world0 =
     (Inr (new_document 1705312800000 ''u2''),
      \<lparr>subscriptions = [sub0, new_document 1705312800000 ''u2''], roles = [(''u1'', ''user'')],
       effects = [SubscriptionWrite ''u2'']\<rparr>)"
  by (simp add: updateSubscription_def Subscription_findOneAndUpdate_def Subscription_findOne_def
      clean_endDate_def pre_findOneAndUpdate_def role_change_def env0_def world0_def sub0_def
      no_data_def log_effect_def apply_update_def set_field_def new_document_def Let_def)

text \<open>
  C6, as the specification states it: after a write of a malformed end date, the record read
  back has no end date. It fails for a record that had an end date before the write: the empty
  string is malformed, and the record of user u1 read back still has its end date.
\<close>

theorem malformed_write_readback_counterexample:
  "malformed_endDate (Date_parse env0) (Str [])
   \<and> map_option (\<lambda>r. endDate (fst r))
       (getCurrentSubscription env0 ''u1''
          (snd (updateSubscription env0 ''u1'' (no_data\<lparr>d_endDate := Some (Str [])\<rparr>) world0))) =
     Some (Some (ValidDate 1705312800000))"
  by (simp add: update_world0_empty_endDate malformed_endDate_def getCurrentSubscription_def
      Subscription_findOne_def sub0_def)

text \<open>
  C6, amended. For every call of updateSubscription whose end date is null, the string "null",
  the empty string or no date, the value is stripped before the merge and is not persisted:
  the document of the user read back after the write is the one returned, and its end date is
  what the record had before the write (none for a record that is new or had none).
\<close>

theorem malformed_endDate_never_persisted:
  assumes "d_endDate data = Some v" and "malformed_endDate (Date_parse e) v"
    and "updateSubscription e u data w = (Inr doc, w')"
  shows "Subscription_findOne (\<lambda>s. userId s = u) w' = Some doc \<and>
         endDate doc =
           (case Subscription_findOne (\<lambda>s. userId s = u) w of
              None \<Rightarrow> None
            | Some s \<Rightarrow> endDate s)"
proof -
  obtain w1 where w1:
      "Subscription_findOneAndUpdate e u (clean_endDate (Date_parse e) data) w1 = (Inr doc, w')"
    and same: "subscriptions w1 = subscriptions w"
    using updateSubscription_unfold [OF assms(3)] by blast
  have "endDate doc =
      (case Subscription_findOne (\<lambda>s. userId s = u) w1 of None \<Rightarrow> None | Some s \<Rightarrow> endDate s)"
    using findOneAndUpdate_endDate_kept [OF w1] hook_after_clean_malformed [OF assms(1,2)] by simp
  then show ?thesis
    using findOneAndUpdate_readback [OF w1] same by (simp add: Subscription_findOne_def)
qed

theorem malformed_endDate_never_persisted_witness:
  "malformed_endDate (Date_parse env0) (Str ''Invalid Date'')
   \<and> fst (updateSubscription env0 ''u2'' (no_data\<lparr>d_endDate := Some (Str ''Invalid Date'')\<rparr>) world0) =
       Inr (new_document 1705312800000 ''u2'')
   \<and> Subscription_findOne (\<lambda>s. userId s = ''u2'')
       (snd (updateSubscription env0 ''u2'' (no_data\<lparr>d_endDate := Some (Str ''Invalid Date'')\<rparr>) world0)) =
       Some (new_document 1705312800000 ''u2'')
   \<and> endDate (new_document 1705312800000 ''u2'') = None"
proof -
  have m: "malformed_endDate (Date_parse env0) (Str ''Invalid Date'')"
    by (simp add: malformed_endDate_def env0_def)
  have d: "d_endDate (no_data\<lparr>d_endDate := Some (Str ''Invalid Date'')\<rparr>) = Some (Str ''Invalid Date'')"
    by simp
  show ?thesis
    using malformed_endDate_never_persisted [OF d m update_world0_new_user] m
    by (simp add: update_world0_new_user new_document_def)
qed

section \<open>The expiry rule at the write boundaries\<close>

text \<open>The save hook deactivates a canceled subscription whose end date has passed.\<close>

lemma pre_save_deactivates_expired:
  "status s = ''canceled'' \<Longrightarrow> endDate s = Some (ValidDate t) \<Longrightarrow> t \<le> n \<Longrightarrow>
   \<not> isActive (pre_save n s)"
  by (simp add: pre_save_def)

text \<open>
  C1. The update path does not apply the rule the save hook applies. At 2024-01-15 the
  subscription of user u1 is written through updateSubscription as canceled, still active,
  with the end date 2023-11-14: the write succeeds, the document persisted and read back is
  canceled, its end date has passed, and it is active; the save hook would have deactivated it.
\<close>

theorem expired_cancellation_stays_active_through_update:
  "(case updateSubscription env0 ''u1'' (cancel_data (ValidDate 1700000000000)) world0 of
      (Inl msg, w') \<Rightarrow> False
    | (Inr doc, w') \<Rightarrow>
        Subscription_findOne (\<lambda>s. userId s = ''u1'') w' = Some doc
        \<and> status doc = ''canceled''
        \<and> endDate doc = Some (ValidDate 1700000000000)
        \<and> 1700000000000 \<le> now env0
        \<and> isActive doc
        \<and> \<not> isActive (pre_save (now env0) doc))"
  by (simp add: updateSubscription_def Subscription_findOneAndUpdate_def Subscription_findOne_def
      clean_endDate_def pre_findOneAndUpdate_def role_change_def env0_def world0_def sub0_def
      cancel_data_def no_data_def log_effect_def apply_update_def set_field_def pre_save_def Let_def)

section \<open>cancelSubscriptionAtPeriodEnd\<close>

lemma filter_names:
  "(\<lambda>s. userId s = u \<and> status s = ''active'' \<and> isActive s) = active_of u"
  "(\<lambda>s. userId s = u \<and> status s = ''canceled'' \<and> isActive s
        \<and> cancelationType s \<noteq> Some ''immediate'') = scheduled_of u"
  "(\<lambda>s. userId s = u \<and> status s = ''canceled'' \<and> \<not> isActive s) = expired_of u"
  "(\<lambda>s. userId s = u \<and> status s = ''canceled'' \<and> isActive s
        \<and> cancelationType s = Some ''end_of_period'') = reactivable_of u"
  by (simp_all add: fun_eq_iff active_of_def scheduled_of_def expired_of_def reactivable_of_def)

lemma store_writes_append: "store_writes (xs @ ys) = store_writes xs @ store_writes ys"
  by (induction xs rule: store_writes.induct) simp_all

lemma date_2024_02_15: "toLocaleDateString_frFR (ValidDate 1707991200000) = ''15/02/2024''"
  by code_simp

text \<open>
  C5. With no active subscription, cancelSubscriptionAtPeriodEnd fails in one of three ways
  and leaves the world, the log of remote calls included, as it was: with a cancellation
  already scheduled, the error carries its end date as formatted (the words "fin de periode"
  when it has none); else with an expired cancellation, the error says so; else, with no
  record in any of these states, there is nothing to cancel.
\<close>

theorem cancel_refused_without_remote_call:
  assumes "Subscription_findOne (active_of u) w = None"
  shows "(Subscription_findOne (scheduled_of u) w = Some s \<longrightarrow>
            cancelSubscriptionAtPeriodEnd e u w =
              (Inl (AlreadyScheduled
                 (case endDate s of Some d \<Rightarrow> toLocaleDateString_frFR d | None \<Rightarrow> fin_de_periode)), w))
       \<and> (Subscription_findOne (scheduled_of u) w = None
            \<and> Subscription_findOne (expired_of u) w = Some x \<longrightarrow>
            cancelSubscriptionAtPeriodEnd e u w = (Inl AlreadyExpired, w))
       \<and> (Subscription_findOne (scheduled_of u) w = None
            \<and> Subscription_findOne (expired_of u) w = None \<longrightarrow>
            cancelSubscriptionAtPeriodEnd e u w = (Inl NothingToCancel, w))"
  using assms by (simp add: cancelSubscriptionAtPeriodEnd_def filter_names)

theorem cancel_refused_without_remote_call_witness:
  "cancelSubscriptionAtPeriodEnd env0 ''u1'' (world_of [sub_scheduled]) =
     (Inl (AlreadyScheduled ''15/02/2024''), world_of [sub_scheduled])
   \<and> cancelSubscriptionAtPeriodEnd env0 ''u1'' (world_of [sub_expired]) =
     (Inl AlreadyExpired, world_of [sub_expired])
   \<and> cancelSubscriptionAtPeriodEnd env0 ''u1'' (world_of []) = (Inl NothingToCancel, world_of [])"
proof -
  have a: "Subscription_findOne (active_of ''u1'') (world_of [sub_scheduled]) = None"
    by (simp add: Subscription_findOne_def world_of_def active_of_def sub_scheduled_def sub1_def sub0_def)
  have b: "Subscription_findOne (scheduled_of ''u1'') (world_of [sub_scheduled]) = Some sub_scheduled"
    by (simp add: Subscription_findOne_def world_of_def scheduled_of_def sub_scheduled_def sub1_def sub0_def)
  have c: "endDate sub_scheduled = Some (ValidDate 1707991200000)"
    by (simp add: sub_scheduled_def)
  have a': "Subscription_findOne (active_of ''u1'') (world_of [sub_expired]) = None"
    by (simp add: Subscription_findOne_def world_of_def active_of_def sub_expired_def
        sub_scheduled_def sub1_def sub0_def)
  have b': "Subscription_findOne (scheduled_of ''u1'') (world_of [sub_expired]) = None"
    by (simp add: Subscription_findOne_def world_of_def scheduled_of_def sub_expired_def
        sub_scheduled_def sub1_def sub0_def)
  have c': "Subscription_findOne (expired_of ''u1'') (world_of [sub_expired]) = Some sub_expired"
    by (simp add: Subscription_findOne_def world_of_def expired_of_def sub_expired_def
        sub_scheduled_def sub1_def sub0_def)
  have n: "Subscription_findOne P (world_of []) = None" for P
    by (simp add: Subscription_findOne_def world_of_def)
  show ?thesis
    using cancel_refused_without_remote_call [OF a, of sub_scheduled env0 sub_expired]
      cancel_refused_without_remote_call [OF a', of sub_scheduled env0 sub_expired]
      cancel_refused_without_remote_call [OF n, of "''u1''" sub_scheduled env0 sub_expired]
    by (simp add: b c b' c' n date_2024_02_15 del: toLocaleDateString_frFR.simps)
qed

lemma cancel_found:
  assumes "Subscription_findOne (active_of u) w = Some s"
  shows "cancelSubscriptionAtPeriodEnd e u w =
     (case cancel_endDate e s w of
        (Inl err, w1) \<Rightarrow> (Inl err, w1)
      | (Inr None, w1) \<Rightarrow> (Inl EndDateUndetermined, w1)
      | (Inr (Some InvalidDate), w1) \<Rightarrow> (Inl EndDateUndetermined, w1)
      | (Inr (Some (ValidDate t)), w1) \<Rightarrow>
          (case updateSubscription e u (cancel_data (ValidDate t)) w1 of
             (Inl msg, w2) \<Rightarrow> (Inl (SaveCancelFailed msg), w2)
           | (Inr doc, w2) \<Rightarrow> (Inr (doc, daysRemaining_of t (now e)), w2)))"
  using assms by (simp add: cancelSubscriptionAtPeriodEnd_def filter_names)

lemma cancel_data_persisted:
  assumes "subscription_write_fails e = None"
  shows "\<exists>doc w2. updateSubscription e u (cancel_data (ValidDate t)) w1 = (Inr doc, w2)
     \<and> Subscription_findOne (\<lambda>s. userId s = u) w2 = Some doc
     \<and> endDate doc = Some (ValidDate t) \<and> status doc = ''canceled'' \<and> isActive doc
     \<and> cancelationType doc = Some ''end_of_period''
     \<and> effects w2 = effects w1 @ [SubscriptionWrite u]"
proof -
  have c: "clean_endDate (Date_parse e) (cancel_data (ValidDate t)) = cancel_data (ValidDate t)"
    by (simp add: clean_endDate_def cancel_data_def)
  have h: "pre_findOneAndUpdate (Date_parse e) (cancel_data (ValidDate t)) = cancel_data (ValidDate t)"
    by (simp add: pre_findOneAndUpdate_def cancel_data_def)
  have up: "updateSubscription e u (cancel_data (ValidDate t)) w1 =
      Subscription_findOneAndUpdate e u (cancel_data (ValidDate t)) w1"
    by (simp add: updateSubscription_no_role role_change_cancel_data c)
  obtain doc w2 where r: "Subscription_findOneAndUpdate e u (cancel_data (ValidDate t)) w1 = (Inr doc, w2)"
    using findOneAndUpdate_succeeds [OF assms] by blast
  obtain s0 where "doc = apply_update (Date_parse e) (now e) (cancel_data (ValidDate t)) s0"
    using findOneAndUpdate_doc [OF r] by (auto simp add: h)
  then have fields: "endDate doc = Some (ValidDate t) \<and> status doc = ''canceled'' \<and> isActive doc
      \<and> cancelationType doc = Some ''end_of_period''"
    by (simp add: apply_update_def cancel_data_def no_data_def set_field_def)
  have eff: "effects w2 = effects w1 @ [SubscriptionWrite u]"
    using findOneAndUpdate_effects [of e u "cancel_data (ValidDate t)" w1] r by simp
  show ?thesis
    using up r fields eff findOneAndUpdate_readback [OF r] by simp
qed

text \<open>The cancellation of an active subscription, once the remote part has given a date.\<close>

lemma cancel_persists_date:
  assumes "Subscription_findOne (active_of u) w = Some s"
    and "cancel_endDate e s w = (Inr (Some (ValidDate t)), w1)"
    and "subscription_write_fails e = None"
  shows "persisted_canceled_at e u w t"
    and "remote_calls (effects (snd (cancelSubscriptionAtPeriodEnd e u w))) = remote_calls (effects w1)"
proof -
  obtain doc w2 where r: "updateSubscription e u (cancel_data (ValidDate t)) w1 = (Inr doc, w2)"
    and rb: "Subscription_findOne (\<lambda>s. userId s = u) w2 = Some doc"
    and f: "endDate doc = Some (ValidDate t) \<and> status doc = ''canceled'' \<and> isActive doc
      \<and> cancelationType doc = Some ''end_of_period''"
    and eff: "effects w2 = effects w1 @ [SubscriptionWrite u]"
    using cancel_data_persisted [OF assms(3), of u t w1] by blast
  have res: "cancelSubscriptionAtPeriodEnd e u w = (Inr (doc, daysRemaining_of t (now e)), w2)"
    using assms(2) r by (simp add: cancel_found [OF assms(1)])
  show "persisted_canceled_at e u w t"
    using res rb f by (simp add: persisted_canceled_at_def)
  show "remote_calls (effects (snd (cancelSubscriptionAtPeriodEnd e u w))) = remote_calls (effects w1)"
    using res eff by (simp add: remote_calls_append)
qed

text \<open>Lines 317-329 and 357-369: the date chosen when the remote subscription is already
  scheduled, with the retrieval as the only remote call.\<close>

lemma cancel_endDate_already_scheduled:
  assumes "truthy_id (stripeSubscriptionId s) = Some sid"
    and "stripe_retrieve e sid = Inr cur" and "cancel_at_period_end cur"
  shows "cancel_endDate e s w =
     (Inr (manual_if_unusable e s
        (case current_period_end cur of
           None \<Rightarrow> endDate s
         | Some c \<Rightarrow> if c \<noteq> 0 then Some (TimeClip (c * 1000)) else endDate s)),
      log_effect (StripeRetrieve sid) w)"
  using assms by (simp add: cancel_endDate_def Let_def)

lemma cancel_already_scheduled:
  assumes "Subscription_findOne (active_of u) w = Some s"
    and "truthy_id (stripeSubscriptionId s) = Some sid"
    and "stripe_retrieve e sid = Inr cur" and "cancel_at_period_end cur"
    and "manual_if_unusable e s
        (case current_period_end cur of
           None \<Rightarrow> endDate s
         | Some c \<Rightarrow> if c \<noteq> 0 then Some (TimeClip (c * 1000)) else endDate s) = Some (ValidDate t)"
    and "subscription_write_fails e = None"
  shows "persisted_canceled_at e u w t"
    and "remote_calls (effects (snd (cancelSubscriptionAtPeriodEnd e u w))) =
      remote_calls (effects w) @ [StripeRetrieve sid]"
proof -
  have ce: "cancel_endDate e s w = (Inr (Some (ValidDate t)), log_effect (StripeRetrieve sid) w)"
    using cancel_endDate_already_scheduled [OF assms(2,3,4), of w] assms(5) by simp
  show "persisted_canceled_at e u w t"
    using cancel_persists_date(1) [OF assms(1) ce assms(6)] .
  show "remote_calls (effects (snd (cancelSubscriptionAtPeriodEnd e u w))) =
      remote_calls (effects w) @ [StripeRetrieve sid]"
    using cancel_persists_date(2) [OF assms(1) ce assms(6)]
    by (simp add: log_effect_def remote_calls_append)
qed

lemma cancel_endDate_remote_error:
  assumes "truthy_id (stripeSubscriptionId s) = Some sid"
    and "cancel_remote_error e sid = Some err"
  shows "fst (cancel_endDate e s w) = cancel_catch e s err"
  using assms
  by (auto simp add: cancel_endDate_def cancel_remote_error_def Let_def
      split: sum.splits if_splits)

lemma cancel_endDate_store_writes:
  "store_writes (effects (snd (cancel_endDate e s w))) = store_writes (effects w)"
  by (simp add: cancel_endDate_def log_effect_def Let_def store_writes_append
      split: option.splits sum.splits)

lemma one_month_after_2024_01_15:
  "setMonth_next (ValidDate 1705312800000) = ValidDate 1707991200000"
  by code_simp

lemma sample_sub1:
  "Subscription_findOne (active_of ''u1'') (world_of [sub1]) = Some sub1"
  "truthy_id (stripeSubscriptionId sub1) = Some ''sub_1''"
  "plan sub1 = ''monthly''"
  "endDate sub1 = Some (ValidDate 1705312800000)"
  by (simp_all add: Subscription_findOne_def world_of_def active_of_def truthy_id_def sub1_def sub0_def)

lemma sample_sub1_no_endDate:
  "Subscription_findOne (active_of ''u1'') (world_of [sub1\<lparr>endDate := None\<rparr>]) = Some (sub1\<lparr>endDate := None\<rparr>)"
  "truthy_id (stripeSubscriptionId (sub1\<lparr>endDate := None\<rparr>)) = Some ''sub_1''"
  "plan (sub1\<lparr>endDate := None\<rparr>) = ''monthly''"
  "endDate (sub1\<lparr>endDate := None\<rparr>) = None"
  by (simp_all add: Subscription_findOne_def world_of_def active_of_def truthy_id_def sub1_def sub0_def)

lemma sample_local_endDate:
  "now e = 1705312800000 \<Longrightarrow> local_endDate e ''monthly'' = ValidDate 1707991200000"
  by (simp add: local_endDate_def one_month_after_2024_01_15 del: setMonth_next.simps)

text \<open>
  C4, as the specification states it: when the remote subscription already has
  \<^verbatim>\<open>cancel_at_period_end\<close>, its \<^verbatim>\<open>current_period_end\<close> becomes the end date. It fails in three
  ways, at 2024-01-15 for a record whose end date is that day:
  \<^item> with a \<^verbatim>\<open>current_period_end\<close> of 0, which the guard of line 322 skips, the end date
    persisted is the record's own, not 1970-01-01;
  \<^item> with no \<^verbatim>\<open>current_period_end\<close> in the remote object, likewise;
  \<^item> with a \<^verbatim>\<open>current_period_end\<close> beyond the range of dates, the Date built from it is
    invalid and the end date persisted is the local computation, 2024-02-15.
\<close>

theorem cancel_adopts_period_end_counterexample:
  "stripe_retrieve env_epoch ''sub_1'' = Inr (remote_sub True (Some 0))
   \<and> TimeClip (0 * 1000) = ValidDate 0
   \<and> persisted_canceled_at env_epoch ''u1'' (world_of [sub1]) 1705312800000
   \<and> stripe_retrieve env_absent ''sub_1'' = Inr (remote_sub True None)
   \<and> persisted_canceled_at env_absent ''u1'' (world_of [sub1]) 1705312800000
   \<and> stripe_retrieve env_far ''sub_1'' = Inr (remote_sub True (Some 8640000000001))
   \<and> TimeClip (8640000000001 * 1000) = InvalidDate
   \<and> persisted_canceled_at env_far ''u1'' (world_of [sub1]) 1707991200000"
proof -
  have e1: "stripe_retrieve env_epoch ''sub_1'' = Inr (remote_sub True (Some 0))
      \<and> subscription_write_fails env_epoch = None"
    by (simp add: env_epoch_def env0_def)
  have e2: "stripe_retrieve env_absent ''sub_1'' = Inr (remote_sub True None)
      \<and> subscription_write_fails env_absent = None"
    by (simp add: env_absent_def env0_def)
  have e3: "stripe_retrieve env_far ''sub_1'' = Inr (remote_sub True (Some 8640000000001))
      \<and> subscription_write_fails env_far = None \<and> now env_far = 1705312800000"
    by (simp add: env_far_def env0_def)
  have c: "\<And>p. cancel_at_period_end (remote_sub True p) \<and> current_period_end (remote_sub True p) = p"
    by (simp add: remote_sub_def)
  have t0: "TimeClip (0 * 1000) = ValidDate 0"
    and tf: "TimeClip (8640000000001 * 1000) = InvalidDate"
    by (simp_all add: TimeClip_def)
  have m1: "manual_if_unusable env_epoch sub1
      (case current_period_end (remote_sub True (Some 0)) of
         None \<Rightarrow> endDate sub1
       | Some c \<Rightarrow> if c \<noteq> 0 then Some (TimeClip (c * 1000)) else endDate sub1) =
      Some (ValidDate 1705312800000)"
    by (simp add: c sample_sub1 manual_if_unusable_def unusable_def)
  have m2: "manual_if_unusable env_absent sub1
      (case current_period_end (remote_sub True None) of
         None \<Rightarrow> endDate sub1
       | Some c \<Rightarrow> if c \<noteq> 0 then Some (TimeClip (c * 1000)) else endDate sub1) =
      Some (ValidDate 1705312800000)"
    by (simp add: c sample_sub1 manual_if_unusable_def unusable_def)
  have m3: "manual_if_unusable env_far sub1
      (case current_period_end (remote_sub True (Some 8640000000001)) of
         None \<Rightarrow> endDate sub1
       | Some c \<Rightarrow> if c \<noteq> 0 then Some (TimeClip (c * 1000)) else endDate sub1) =
      Some (ValidDate 1707991200000)"
    using tf e3
    by (simp add: c sample_sub1 manual_if_unusable_def unusable_def sample_local_endDate)
  show ?thesis
    using e1 e2 e3 t0 tf
      cancel_already_scheduled(1) [OF sample_sub1(1,2) _ _ m1]
      cancel_already_scheduled(1) [OF sample_sub1(1,2) _ _ m2]
      cancel_already_scheduled(1) [OF sample_sub1(1,2) _ _ m3]
    by (simp add: c)
qed

lemma cancel_after_remote_part:
  assumes "Subscription_findOne (active_of u) w = Some s"
    and "cancel_endDate e s w = (Inr d, w1)"
  shows "remote_calls (effects (snd (cancelSubscriptionAtPeriodEnd e u w))) = remote_calls (effects w1)"
proof (cases d)
  case None
  then show ?thesis
    using assms(2) by (simp add: cancel_found [OF assms(1)])
next
  case (Some x)
  show ?thesis
  proof (cases x)
    case InvalidDate
    then show ?thesis
      using assms(2) Some by (simp add: cancel_found [OF assms(1)])
  next
    case (ValidDate t)
    obtain q w2 where q: "updateSubscription e u (cancel_data (ValidDate t)) w1 = (q, w2)"
      by (cases "updateSubscription e u (cancel_data (ValidDate t)) w1")
    have "effects w2 = effects w1 @ [SubscriptionWrite u]"
      using updateSubscription_effects [of e u "cancel_data (ValidDate t)" w1] q
      by (simp add: role_change_cancel_data)
    then have "remote_calls (effects w2) = remote_calls (effects w1)"
      by (simp add: remote_calls_append)
    then show ?thesis
      using assms(2) Some ValidDate q by (cases q) (simp_all add: cancel_found [OF assms(1)])
  qed
qed

text \<open>
  C4, amended. For an active subscription with a remote id:
  \<^item> when the remote subscription retrieved already has \<^verbatim>\<open>cancel_at_period_end\<close>, the retrieval
    is the only remote call; and, the store accepting the write, the subscription is
    persisted as canceled, still active, with for end date: the \<^verbatim>\<open>current_period_end\<close> when
    it is present, not 0 and a date; the record's own end date when the
    \<^verbatim>\<open>current_period_end\<close> is absent or 0 and the record has a valid end date; the local
    computation when the \<^verbatim>\<open>current_period_end\<close> is no date, or is absent or 0 while the
    record has no valid end date;
  \<^item> when a remote call fails with the code "resource_missing", the end date persisted is
    the local computation;
  \<^item> when a remote call fails with any other error, the operation fails with that error's
    message and writes to no store.
  The local computation is now moved one year ahead for the annual plan, one month ahead for
  every other plan.
\<close>

theorem cancel_remote_outcomes:
  assumes "Subscription_findOne (active_of u) w = Some s"
    and "truthy_id (stripeSubscriptionId s) = Some sid"
  shows "(stripe_retrieve e sid = Inr cur \<and> cancel_at_period_end cur \<longrightarrow>
            remote_calls (effects (snd (cancelSubscriptionAtPeriodEnd e u w))) =
              remote_calls (effects w) @ [StripeRetrieve sid])
       \<and> (stripe_retrieve e sid = Inr cur \<and> cancel_at_period_end cur
            \<and> current_period_end cur = Some c \<and> c \<noteq> 0 \<and> TimeClip (c * 1000) = ValidDate t
            \<and> subscription_write_fails e = None \<longrightarrow>
            persisted_canceled_at e u w t)
       \<and> (stripe_retrieve e sid = Inr cur \<and> cancel_at_period_end cur
            \<and> (current_period_end cur = None \<or> current_period_end cur = Some 0)
            \<and> endDate s = Some (ValidDate t)
            \<and> subscription_write_fails e = None \<longrightarrow>
            persisted_canceled_at e u w t)
       \<and> (stripe_retrieve e sid = Inr cur \<and> cancel_at_period_end cur
            \<and> (current_period_end cur = Some c \<and> c \<noteq> 0 \<and> TimeClip (c * 1000) = InvalidDate
               \<or> (current_period_end cur = None \<or> current_period_end cur = Some 0)
                 \<and> (endDate s = None \<or> endDate s = Some InvalidDate))
            \<and> (if plan s = ''annual'' then setFullYear_next (ValidDate (now e))
                else setMonth_next (ValidDate (now e))) = ValidDate t
            \<and> subscription_write_fails e = None \<longrightarrow>
            persisted_canceled_at e u w t)
       \<and> (cancel_remote_error e sid = Some err \<and> err_code err = Some ''resource_missing''
            \<and> (if plan s = ''annual'' then setFullYear_next (ValidDate (now e))
                else setMonth_next (ValidDate (now e))) = ValidDate t
            \<and> subscription_write_fails e = None \<longrightarrow>
            persisted_canceled_at e u w t)
       \<and> (cancel_remote_error e sid = Some err \<and> err_code err \<noteq> Some ''resource_missing'' \<longrightarrow>
            fst (cancelSubscriptionAtPeriodEnd e u w) = Inl (StripeCancelFailed (err_message err))
            \<and> subscriptions (snd (cancelSubscriptionAtPeriodEnd e u w)) = subscriptions w
            \<and> roles (snd (cancelSubscriptionAtPeriodEnd e u w)) = roles w
            \<and> store_writes (effects (snd (cancelSubscriptionAtPeriodEnd e u w))) =
                store_writes (effects w))"
proof (intro conjI impI)
  assume a: "stripe_retrieve e sid = Inr cur \<and> cancel_at_period_end cur"
  show "remote_calls (effects (snd (cancelSubscriptionAtPeriodEnd e u w))) =
      remote_calls (effects w) @ [StripeRetrieve sid]"
    using cancel_after_remote_part [OF assms(1) cancel_endDate_already_scheduled [OF assms(2), of e cur w]] a
    by (simp add: log_effect_def remote_calls_append)
next
  assume a: "stripe_retrieve e sid = Inr cur \<and> cancel_at_period_end cur
      \<and> current_period_end cur = Some c \<and> c \<noteq> 0 \<and> TimeClip (c * 1000) = ValidDate t
      \<and> subscription_write_fails e = None"
  then have "manual_if_unusable e s
      (case current_period_end cur of
         None \<Rightarrow> endDate s
       | Some c \<Rightarrow> if c \<noteq> 0 then Some (TimeClip (c * 1000)) else endDate s) = Some (ValidDate t)"
    by (simp add: manual_if_unusable_def unusable_def)
  then show "persisted_canceled_at e u w t"
    using cancel_already_scheduled(1) [OF assms, of e cur t] a by simp
next
  assume a: "stripe_retrieve e sid = Inr cur \<and> cancel_at_period_end cur
      \<and> (current_period_end cur = None \<or> current_period_end cur = Some 0)
      \<and> endDate s = Some (ValidDate t)
      \<and> subscription_write_fails e = None"
  then have "manual_if_unusable e s
      (case current_period_end cur of
         None \<Rightarrow> endDate s
       | Some c \<Rightarrow> if c \<noteq> 0 then Some (TimeClip (c * 1000)) else endDate s) = Some (ValidDate t)"
    by (auto simp add: manual_if_unusable_def unusable_def)
  then show "persisted_canceled_at e u w t"
    using cancel_already_scheduled(1) [OF assms, of e cur t] a by simp
next
  assume a: "stripe_retrieve e sid = Inr cur \<and> cancel_at_period_end cur
      \<and> (current_period_end cur = Some c \<and> c \<noteq> 0 \<and> TimeClip (c * 1000) = InvalidDate
         \<or> (current_period_end cur = None \<or> current_period_end cur = Some 0)
           \<and> (endDate s = None \<or> endDate s = Some InvalidDate))
      \<and> (if plan s = ''annual'' then setFullYear_next (ValidDate (now e))
          else setMonth_next (ValidDate (now e))) = ValidDate t
      \<and> subscription_write_fails e = None"
  then have l: "local_endDate e (plan s) = ValidDate t"
    by (simp add: local_endDate_def)
  have "unusable (case current_period_end cur of
         None \<Rightarrow> endDate s
       | Some c \<Rightarrow> if c \<noteq> 0 then Some (TimeClip (c * 1000)) else endDate s)"
    using a by (auto simp add: unusable_def)
  then have "manual_if_unusable e s
      (case current_period_end cur of
         None \<Rightarrow> endDate s
       | Some c \<Rightarrow> if c \<noteq> 0 then Some (TimeClip (c * 1000)) else endDate s) = Some (ValidDate t)"
    using l by (simp add: manual_if_unusable_def)
  then show "persisted_canceled_at e u w t"
    using cancel_already_scheduled(1) [OF assms, of e cur t] a by simp
next
  assume b: "cancel_remote_error e sid = Some err \<and> err_code err = Some ''resource_missing''
      \<and> (if plan s = ''annual'' then setFullYear_next (ValidDate (now e))
          else setMonth_next (ValidDate (now e))) = ValidDate t
      \<and> subscription_write_fails e = None"
  obtain r w1 where r: "cancel_endDate e s w = (r, w1)"
    by (cases "cancel_endDate e s w")
  have "r = Inr (Some (ValidDate t))"
    using cancel_endDate_remote_error [OF assms(2), of e err w] b r
    by (simp add: cancel_catch_def local_endDate_def)
  then show "persisted_canceled_at e u w t"
    using cancel_persists_date(1) [OF assms(1), of e t w1] r b by simp
next
  assume c: "cancel_remote_error e sid = Some err \<and> err_code err \<noteq> Some ''resource_missing''"
  obtain r w1 where r: "cancel_endDate e s w = (r, w1)"
    by (cases "cancel_endDate e s w")
  have r': "r = Inl (StripeCancelFailed (err_message err))"
    using cancel_endDate_remote_error [OF assms(2), of e err w] c r
    by (simp add: cancel_catch_def)
  have res: "cancelSubscriptionAtPeriodEnd e u w = (Inl (StripeCancelFailed (err_message err)), w1)"
    using r r' by (simp add: cancel_found [OF assms(1)])
  show "fst (cancelSubscriptionAtPeriodEnd e u w) = Inl (StripeCancelFailed (err_message err))"
    using res by simp
  show "subscriptions (snd (cancelSubscriptionAtPeriodEnd e u w)) = subscriptions w"
    using res r cancel_endDate_subscriptions [of e s w] by simp
  show "roles (snd (cancelSubscriptionAtPeriodEnd e u w)) = roles w"
    using res r cancel_endDate_roles [of e s w] by simp
  show "store_writes (effects (snd (cancelSubscriptionAtPeriodEnd e u w))) = store_writes (effects w)"
    using res r cancel_endDate_store_writes [of e s w] by simp
qed

theorem cancel_remote_outcomes_witness:
  "remote_calls (effects (snd (cancelSubscriptionAtPeriodEnd env_scheduled ''u1'' (world_of [sub1])))) =
     [StripeRetrieve ''sub_1'']
   \<and> persisted_canceled_at env_scheduled ''u1'' (world_of [sub1]) 1707991200000
   \<and> persisted_canceled_at env_absent ''u1'' (world_of [sub1]) 1705312800000
   \<and> persisted_canceled_at env_far ''u1'' (world_of [sub1]) 1707991200000
   \<and> persisted_canceled_at env_absent ''u1'' (world_of [sub1\<lparr>endDate := None\<rparr>]) 1707991200000
   \<and> persisted_canceled_at env_missing ''u1'' (world_of [sub1]) 1707991200000
   \<and> fst (cancelSubscriptionAtPeriodEnd env0 ''u1'' (world_of [sub1])) =
       Inl (StripeCancelFailed ''unreachable'')
   \<and> subscriptions (snd (cancelSubscriptionAtPeriodEnd env0 ''u1'' (world_of [sub1]))) = [sub1]"
proof -
  have c: "\<And>p. cancel_at_period_end (remote_sub True p) \<and> current_period_end (remote_sub True p) = p"
    by (simp add: remote_sub_def)
  have a: "stripe_retrieve env_scheduled ''sub_1'' = Inr (remote_sub True (Some 1707991200))
      \<and> (1707991200 :: int) \<noteq> 0 \<and> TimeClip (1707991200 * 1000) = ValidDate 1707991200000
      \<and> subscription_write_fails env_scheduled = None"
    by (simp add: env_scheduled_def env0_def TimeClip_def)
  have a2: "stripe_retrieve env_absent ''sub_1'' = Inr (remote_sub True None)
      \<and> subscription_write_fails env_absent = None \<and> now env_absent = 1705312800000"
    by (simp add: env_absent_def env0_def)
  have a3: "stripe_retrieve env_far ''sub_1'' = Inr (remote_sub True (Some 8640000000001))
      \<and> (8640000000001 :: int) \<noteq> 0 \<and> TimeClip (8640000000001 * 1000) = InvalidDate
      \<and> subscription_write_fails env_far = None \<and> now env_far = 1705312800000"
    by (simp add: env_far_def env0_def TimeClip_def)
  have b: "cancel_remote_error env_missing ''sub_1'' = Some gateway_missing
      \<and> err_code gateway_missing = Some ''resource_missing''
      \<and> subscription_write_fails env_missing = None \<and> now env_missing = 1705312800000"
    by (simp add: cancel_remote_error_def env_missing_def env0_def gateway_missing_def)
  have d: "cancel_remote_error env0 ''sub_1'' = Some gateway_down
      \<and> err_code gateway_down \<noteq> Some ''resource_missing'' \<and> err_message gateway_down = ''unreachable''"
    by (simp add: cancel_remote_error_def env0_def gateway_down_def)
  have w: "subscriptions (world_of [sub1]) = [sub1] \<and> effects (world_of [sub1]) = []"
    by (simp add: world_of_def)
  show ?thesis
    using cancel_remote_outcomes [OF sample_sub1(1,2), of env_scheduled "remote_sub True (Some 1707991200)"
        1707991200 1707991200000 gateway_missing]
      cancel_remote_outcomes [OF sample_sub1(1,2), of env_absent "remote_sub True None"
        0 1705312800000 gateway_missing]
      cancel_remote_outcomes [OF sample_sub1(1,2), of env_far "remote_sub True (Some 8640000000001)"
        8640000000001 1707991200000 gateway_missing]
      cancel_remote_outcomes [OF sample_sub1_no_endDate(1,2), of env_absent "remote_sub True None"
        0 1707991200000 gateway_missing]
      cancel_remote_outcomes [OF sample_sub1(1,2), of env_missing "remote_sub True None"
        0 1707991200000 gateway_missing]
      cancel_remote_outcomes [OF sample_sub1(1,2), of env0 "remote_sub True None" 0 0 gateway_down]
      a a2 a3 b d w c sample_sub1(3,4) sample_sub1_no_endDate(3,4)
    by (simp add: one_month_after_2024_01_15 del: setMonth_next.simps)
qed

section \<open>reactivateSubscription\<close>

lemma role_change_reactivate_data: "role_change reactivate_data = Some ''premium''"
  by (simp add: role_change_def reactivate_data_def no_data_def)

lemma reactivate_data_clean:
  "pre_findOneAndUpdate p (clean_endDate p reactivate_data) = reactivate_data"
  by (simp add: pre_findOneAndUpdate_def clean_endDate_def reactivate_data_def no_data_def)

lemma reactivate_persist_result:
  assumes "reactivate_persist e u w1 = (Inr doc, w2)"
  shows "status doc = ''active'' \<and> isActive doc \<and> cancelationType doc = None
       \<and> Subscription_findOne (\<lambda>s. userId s = u) w2 = Some doc
       \<and> effects w2 = effects w1 @ [RoleWrite u ''premium'', SubscriptionWrite u]
       \<and> roles w2 = set_role u ''premium'' (roles w1)"
proof -
  have up: "updateSubscription e u reactivate_data w1 = (Inr doc, w2)"
    using assms
    by (cases "updateSubscription e u reactivate_data w1")
       (auto simp add: reactivate_persist_def split: sum.splits)
  have uw: "user_write_fails e = None"
    using up
    by (cases "user_write_fails e")
       (simp_all add: updateSubscription_def Let_def role_change_clean role_change_reactivate_data
          User_findByIdAndUpdate_def)
  obtain w0 where w0:
      "Subscription_findOneAndUpdate e u (clean_endDate (Date_parse e) reactivate_data) w0 = (Inr doc, w2)"
    using updateSubscription_unfold [OF up] by blast
  obtain s0 where "doc = apply_update (Date_parse e) (now e) reactivate_data s0"
    using findOneAndUpdate_doc [OF w0] by (auto simp add: reactivate_data_clean)
  then have fields: "status doc = ''active'' \<and> isActive doc \<and> cancelationType doc = None"
    by (simp add: apply_update_def reactivate_data_def no_data_def set_field_def)
  have eff: "effects w2 = effects w1 @ [RoleWrite u ''premium'', SubscriptionWrite u]"
    using updateSubscription_effects [of e u reactivate_data w1] up uw
    by (simp add: role_change_reactivate_data)
  have rl: "roles w2 = set_role u ''premium'' (roles w1)"
    using updateSubscription_roles [of e u reactivate_data w1] up uw
    by (simp add: role_change_reactivate_data)
  show ?thesis
    using fields findOneAndUpdate_readback [OF w0] eff rl by simp
qed

lemma reactivate_persist_succeeds:
  assumes "user_write_fails e = None" and "subscription_write_fails e = None"
  shows "\<exists>doc w2. reactivate_persist e u w1 = (Inr doc, w2)"
proof -
  obtain doc w2 where "Subscription_findOneAndUpdate e u (clean_endDate (Date_parse e) reactivate_data)
      ((log_effect (RoleWrite u ''premium'') w1)\<lparr>roles := set_role u ''premium'' (roles (log_effect (RoleWrite u ''premium'') w1))\<rparr>)
      = (Inr doc, w2)"
    using findOneAndUpdate_succeeds [OF assms(2)] by blast
  then show ?thesis
    using assms(1)
    by (simp add: reactivate_persist_def updateSubscription_def Let_def role_change_clean
        role_change_reactivate_data User_findByIdAndUpdate_def)
qed

lemma reactivate_found:
  assumes "Subscription_findOne (reactivable_of u) w = Some s"
  shows "reactivateSubscription e u w =
     (case truthy_id (stripeSubscriptionId s) of
        None \<Rightarrow> reactivate_persist e u w
      | Some sid \<Rightarrow>
          (case stripe_update e sid (SetCancelAtPeriodEnd False) of
             Inl err \<Rightarrow> (Inl (StripeReactivateFailed (err_message err)),
                          log_effect (StripeUpdate sid (SetCancelAtPeriodEnd False)) w)
           | Inr r \<Rightarrow> reactivate_persist e u
                       (log_effect (StripeUpdate sid (SetCancelAtPeriodEnd False)) w)))"
  using assms
  by (simp add: reactivateSubscription_def filter_names Let_def split: option.splits sum.splits)

text \<open>
  C8. reactivateSubscription fails with "nothing reactivable" (and touches nothing) when the
  user has no record that is canceled, still active and canceled at period end. When it
  succeeds, such a record existed, the document persisted is active with no cancelation type,
  and the role "premium" was written. With such a record, it does succeed when the remote
  clear (if the record has a remote id) and both store writes succeed. When the record has a
  remote id and the remote clear fails, the operation fails with that error and writes to no
  store.
\<close>

theorem reactivate_outcomes:
  "(Subscription_findOne (reactivable_of u) w = None \<longrightarrow>
      reactivateSubscription e u w = (Inl NothingReactivable, w))
   \<and> (fst (reactivateSubscription e u w) = Inr doc \<longrightarrow>
        Subscription_findOne (reactivable_of u) w \<noteq> None
        \<and> status doc = ''active'' \<and> isActive doc \<and> cancelationType doc = None
        \<and> Subscription_findOne (\<lambda>s. userId s = u) (snd (reactivateSubscription e u w)) = Some doc
        \<and> role_writes (effects (snd (reactivateSubscription e u w))) =
            role_writes (effects w) @ [(u, ''premium'')]
        \<and> roles (snd (reactivateSubscription e u w)) = set_role u ''premium'' (roles w))
   \<and> (Subscription_findOne (reactivable_of u) w = Some s
        \<and> (truthy_id (stripeSubscriptionId s) = None
           \<or> truthy_id (stripeSubscriptionId s) = Some sid
             \<and> stripe_update e sid (SetCancelAtPeriodEnd False) = Inr r)
        \<and> user_write_fails e = None \<and> subscription_write_fails e = None \<longrightarrow>
        (\<exists>d. fst (reactivateSubscription e u w) = Inr d))
   \<and> (Subscription_findOne (reactivable_of u) w = Some s
        \<and> truthy_id (stripeSubscriptionId s) = Some sid
        \<and> stripe_update e sid (SetCancelAtPeriodEnd False) = Inl err \<longrightarrow>
        reactivateSubscription e u w =
          (Inl (StripeReactivateFailed (err_message err)),
           log_effect (StripeUpdate sid (SetCancelAtPeriodEnd False)) w))"
proof (intro conjI impI)
  assume "Subscription_findOne (reactivable_of u) w = None"
  then show "reactivateSubscription e u w = (Inl NothingReactivable, w)"
    by (simp add: reactivateSubscription_def filter_names)
next
  assume ok: "fst (reactivateSubscription e u w) = Inr doc"
  show ne: "Subscription_findOne (reactivable_of u) w \<noteq> None"
    using ok
    by (cases "Subscription_findOne (reactivable_of u) w")
       (simp_all add: reactivateSubscription_def filter_names)
  then obtain s0 where s0: "Subscription_findOne (reactivable_of u) w = Some s0"
    by blast
  obtain w2 where w2: "reactivateSubscription e u w = (Inr doc, w2)"
    using ok by (cases "reactivateSubscription e u w") simp
  have "\<exists>w1. reactivate_persist e u w1 = (Inr doc, w2)
      \<and> role_writes (effects w1) = role_writes (effects w) \<and> roles w1 = roles w"
    using w2
    by (auto simp add: reactivate_found [OF s0] log_effect_def role_writes_append
        split: option.splits sum.splits)
  then obtain w1 where p: "reactivate_persist e u w1 = (Inr doc, w2)"
    and rw: "role_writes (effects w1) = role_writes (effects w)" and rl: "roles w1 = roles w"
    by blast
  note res = reactivate_persist_result [OF p]
  show "status doc = ''active''" "isActive doc" "cancelationType doc = None"
    using res by simp_all
  show "Subscription_findOne (\<lambda>s. userId s = u) (snd (reactivateSubscription e u w)) = Some doc"
    using res w2 by simp
  show "role_writes (effects (snd (reactivateSubscription e u w))) =
      role_writes (effects w) @ [(u, ''premium'')]"
    using res w2 rw by (simp add: role_writes_append)
  show "roles (snd (reactivateSubscription e u w)) = set_role u ''premium'' (roles w)"
    using res w2 rl by simp
next
  assume a: "Subscription_findOne (reactivable_of u) w = Some s
      \<and> (truthy_id (stripeSubscriptionId s) = None
         \<or> truthy_id (stripeSubscriptionId s) = Some sid
           \<and> stripe_update e sid (SetCancelAtPeriodEnd False) = Inr r)
      \<and> user_write_fails e = None \<and> subscription_write_fails e = None"
  then have found: "Subscription_findOne (reactivable_of u) w = Some s"
    and uw: "user_write_fails e = None" and sw: "subscription_write_fails e = None"
    by simp_all
  have "\<exists>w1. reactivateSubscription e u w = reactivate_persist e u w1"
    using a by (auto simp add: reactivate_found [OF found])
  then show "\<exists>d. fst (reactivateSubscription e u w) = Inr d"
    using reactivate_persist_succeeds [OF uw sw, of u] by (metis fst_conv)
next
  assume "Subscription_findOne (reactivable_of u) w = Some s
      \<and> truthy_id (stripeSubscriptionId s) = Some sid
      \<and> stripe_update e sid (SetCancelAtPeriodEnd False) = Inl err"
  then show "reactivateSubscription e u w =
      (Inl (StripeReactivateFailed (err_message err)),
       log_effect (StripeUpdate sid (SetCancelAtPeriodEnd False)) w)"
    by (simp add: reactivate_found)
qed

lemma reactivate_sample:
  "reactivateSubscription env_ok ''u1'' ((world_of [sub_scheduled])\<lparr>roles := [(''u1'', ''user'')]\<rparr>) =
     (Inr (sub_scheduled\<lparr>status := ''active'', cancelationType := None, updatedAt := 1705312800000\<rparr>),
      \<lparr>subscriptions =
         [sub_scheduled\<lparr>status := ''active'', cancelationType := None, updatedAt := 1705312800000\<rparr>],
       roles = [(''u1'', ''premium'')],
       effects = [StripeUpdate ''sub_1'' (SetCancelAtPeriodEnd False), RoleWrite ''u1'' ''premium'',
                  SubscriptionWrite ''u1'']\<rparr>)"
  by (simp add: reactivateSubscription_def reactivate_persist_def reactivate_data_def
      updateSubscription_def Subscription_findOneAndUpdate_def Subscription_findOne_def
      User_findByIdAndUpdate_def set_role_def truthy_id_def
      clean_endDate_def pre_findOneAndUpdate_def role_change_def env_ok_def env0_def remote_sub_def
      world_of_def sub_scheduled_def sub1_def sub0_def
      no_data_def log_effect_def apply_update_def set_field_def Let_def)

theorem reactivate_outcomes_witness:
  "reactivateSubscription env0 ''u1'' (world_of [sub_immediate]) =
     (Inl NothingReactivable, world_of [sub_immediate])
   \<and> reactivateSubscription env0 ''u1'' (world_of [sub_expired]) =
     (Inl NothingReactivable, world_of [sub_expired])
   \<and> status (sub_scheduled\<lparr>status := ''active'', cancelationType := None, updatedAt := 1705312800000\<rparr>) = ''active''
   \<and> roles (snd (reactivateSubscription env_ok ''u1''
         ((world_of [sub_scheduled])\<lparr>roles := [(''u1'', ''user'')]\<rparr>))) = [(''u1'', ''premium'')]
   \<and> (\<exists>d. fst (reactivateSubscription env_ok ''u1'' (world_of [sub_scheduled])) = Inr d)
   \<and> fst (reactivateSubscription env0 ''u1'' (world_of [sub_scheduled])) =
       Inl (StripeReactivateFailed ''unreachable'')"
proof -
  have n1: "Subscription_findOne (reactivable_of ''u1'') (world_of [sub_immediate]) = None"
    by (simp add: Subscription_findOne_def world_of_def reactivable_of_def sub_immediate_def)
  have n2: "Subscription_findOne (reactivable_of ''u1'') (world_of [sub_expired]) = None"
    by (simp add: Subscription_findOne_def world_of_def reactivable_of_def sub_expired_def)
  have f: "Subscription_findOne (reactivable_of ''u1'') (world_of [sub_scheduled]) = Some sub_scheduled"
    by (simp add: Subscription_findOne_def world_of_def reactivable_of_def sub_scheduled_def
        sub1_def sub0_def)
  have i: "truthy_id (stripeSubscriptionId sub_scheduled) = Some ''sub_1''"
    by (simp add: truthy_id_def sub_scheduled_def sub1_def)
  have ok: "stripe_update env_ok ''sub_1'' (SetCancelAtPeriodEnd False) = Inr (remote_sub False (Some 1707991200))
      \<and> user_write_fails env_ok = None \<and> subscription_write_fails env_ok = None"
    by (simp add: env_ok_def env0_def)
  have down: "stripe_update env0 ''sub_1'' (SetCancelAtPeriodEnd False) = Inl gateway_down
      \<and> err_message gateway_down = ''unreachable''"
    by (simp add: env0_def gateway_down_def)
  have s: "set_role ''u1'' ''premium'' [(''u1'', ''user'')] = [(''u1'', ''premium'')]"
    by (simp add: set_role_def)
  show ?thesis
    using reactivate_outcomes [of "''u1''" "world_of [sub_immediate]" env0 sub0 sub0 "''sub_1''"
        "remote_sub False None" gateway_down]
      reactivate_outcomes [of "''u1''" "world_of [sub_expired]" env0 sub0 sub0 "''sub_1''"
        "remote_sub False None" gateway_down]
      reactivate_outcomes [of "''u1''" "(world_of [sub_scheduled])\<lparr>roles := [(''u1'', ''user'')]\<rparr>" env_ok
        "sub_scheduled\<lparr>status := ''active'', cancelationType := None, updatedAt := 1705312800000\<rparr>"
        sub_scheduled "''sub_1''" "remote_sub False (Some 1707991200)" gateway_down]
      reactivate_outcomes [of "''u1''" "world_of [sub_scheduled]" env_ok sub0
        sub_scheduled "''sub_1''" "remote_sub False (Some 1707991200)" gateway_down]
      reactivate_outcomes [of "''u1''" "world_of [sub_scheduled]" env0 sub0
        sub_scheduled "''sub_1''" "remote_sub False None" gateway_down]
      n1 n2 f i ok down
    by (simp add: reactivate_sample s)
qed

section \<open>changePlan\<close>

lemma role_change_change_data: "role_change (change_data p d) = None"
  by (simp add: role_change_def change_data_def no_data_def)

lemma change_persisted:
  assumes "subscription_write_fails e = None"
  shows "\<exists>doc w2. change_persist e u oldPlan newPlan (ValidDate t) amount w1 =
       (Inr \<lparr>cr_subscription = doc, cr_oldPlan = oldPlan, cr_newPlan = newPlan,
              cr_effectiveDate = ValidDate t, cr_prorationAmount = amount\<rparr>, w2)
     \<and> plan doc = newPlan \<and> endDate doc = Some (ValidDate t)"
proof -
  have c: "clean_endDate (Date_parse e) (change_data newPlan (ValidDate t)) = change_data newPlan (ValidDate t)"
    by (simp add: clean_endDate_def change_data_def)
  have h: "pre_findOneAndUpdate (Date_parse e) (change_data newPlan (ValidDate t)) =
      change_data newPlan (ValidDate t)"
    by (simp add: pre_findOneAndUpdate_def change_data_def)
  have f: "\<And>s0. plan (apply_update (Date_parse e) (now e) (change_data newPlan (ValidDate t)) s0) = newPlan
     \<and> endDate (apply_update (Date_parse e) (now e) (change_data newPlan (ValidDate t)) s0) = Some (ValidDate t)"
    by (simp add: apply_update_def change_data_def no_data_def set_field_def)
  show ?thesis
    using assms f
    by (cases "Subscription_findOne (\<lambda>s. userId s = u) (log_effect (SubscriptionWrite u) w1)")
       (simp_all add: change_persist_def updateSubscription_no_role role_change_change_data c h
          Subscription_findOneAndUpdate_def Let_def log_effect_def)
qed

lemma change_found:
  assumes "Subscription_findOne (active_of u) w = Some s"
  shows "changePlan e u newPlan w =
     (if plan s = newPlan then (Inl (AlreadyOnPlan newPlan), w)
      else
        (case truthy_id (stripeSubscriptionId s) of
           Some sid \<Rightarrow>
             (case change_remote e sid (plan s) newPlan w of
                (Inl cause, w1) \<Rightarrow> (Inl (StripeChangePlanFailed cause), w1)
              | (Inr (d, amount), w1) \<Rightarrow> change_persist e u (plan s) newPlan d amount w1)
         | None \<Rightarrow> change_persist e u (plan s) newPlan (change_effectiveDate e newPlan) 0 w))"
  using assms by (simp add: changePlan_def filter_names)

lemma one_year_after_2024_01_15:
  "setFullYear_next (ValidDate 1705312800000) = ValidDate 1736935200000"
  by code_simp

text \<open>
  C9, as the specification states it: a user on the monthly plan who changes to the annual
  plan is returned the proration amount -19.89. It fails for a subscription with no remote
  id: the amount returned is 0.
\<close>

theorem changePlan_proration_counterexample:
  "Subscription_findOne (active_of ''u1'') world0 = Some sub0
   \<and> plan sub0 = ''monthly''
   \<and> (case changePlan env0 ''u1'' ''annual'' world0 of
        (Inl err, w') \<Rightarrow> False
      | (Inr r, w') \<Rightarrow>
          cr_oldPlan r = ''monthly'' \<and> cr_newPlan r = ''annual''
          \<and> cr_prorationAmount r = 0
          \<and> cr_prorationAmount r \<noteq> - (1989 / 100))"
proof -
  have f: "Subscription_findOne (active_of ''u1'') world0 = Some sub0"
    by (simp add: Subscription_findOne_def world0_def active_of_def sub0_def)
  have i: "truthy_id (stripeSubscriptionId sub0) = None" and p: "plan sub0 = ''monthly''"
    by (simp_all add: truthy_id_def sub0_def)
  have d: "change_effectiveDate env0 ''annual'' = ValidDate 1736935200000"
    by (simp add: change_effectiveDate_def env0_def one_year_after_2024_01_15
        del: setFullYear_next.simps)
  have ok: "subscription_write_fails env0 = None"
    by (simp add: env0_def)
  obtain doc w2 where "change_persist env0 ''u1'' ''monthly'' ''annual'' (ValidDate 1736935200000) 0 world0 =
       (Inr \<lparr>cr_subscription = doc, cr_oldPlan = ''monthly'', cr_newPlan = ''annual'',
              cr_effectiveDate = ValidDate 1736935200000, cr_prorationAmount = 0\<rparr>, w2)"
    using change_persisted [OF ok] by blast
  then show ?thesis
    using f i p d by (simp add: change_found [OF f])
qed

text \<open>
  C9, amended. For a user with an active "monthly" subscription whose store write succeeds,
  changePlan to "annual" returns the old plan "monthly", the new plan "annual" and, as end
  date, now moved one year ahead (which is also persisted). When the subscription has a
  remote id, the annual price id is configured and the two remote calls succeed, the
  proration amount is -(9.99 * 12 - 99.99) = -19.89; when it has no remote id, the proration
  amount is 0. changePlan fails, touching nothing, when the new plan is the current plan.
\<close>

theorem changePlan_monthly_to_annual:
  assumes "Subscription_findOne (active_of u) w = Some s"
  shows "(plan s = newPlan \<longrightarrow> changePlan e u newPlan w = (Inl (AlreadyOnPlan newPlan), w))
     \<and> (plan s = ''monthly'' \<and> setFullYear_next (ValidDate (now e)) = ValidDate t
          \<and> subscription_write_fails e = None
          \<and> truthy_id (stripeSubscriptionId s) = Some sid
          \<and> truthy_id (STRIPE_PRICE_ANNUAL_ID e) = Some price
          \<and> stripe_retrieve e sid = Inr cur \<and> item_ids cur = item # rest
          \<and> stripe_update e sid (ChangePrice item price) = Inr upd \<longrightarrow>
          (\<exists>doc. fst (changePlan e u ''annual'' w) =
               Inr \<lparr>cr_subscription = doc, cr_oldPlan = ''monthly'', cr_newPlan = ''annual'',
                    cr_effectiveDate = ValidDate t,
                    cr_prorationAmount = - (999 / 100 * 12 - 9999 / 100)\<rparr>
             \<and> plan doc = ''annual'' \<and> endDate doc = Some (ValidDate t))
          \<and> - (999 / 100 * 12 - 9999 / 100) = (- (1989 / 100) :: rat))
     \<and> (plan s = ''monthly'' \<and> setFullYear_next (ValidDate (now e)) = ValidDate t
          \<and> subscription_write_fails e = None
          \<and> truthy_id (stripeSubscriptionId s) = None \<longrightarrow>
          (\<exists>doc. fst (changePlan e u ''annual'' w) =
               Inr \<lparr>cr_subscription = doc, cr_oldPlan = ''monthly'', cr_newPlan = ''annual'',
                    cr_effectiveDate = ValidDate t, cr_prorationAmount = 0\<rparr>
             \<and> plan doc = ''annual'' \<and> endDate doc = Some (ValidDate t)))"
proof (intro conjI impI)
  assume "plan s = newPlan"
  then show "changePlan e u newPlan w = (Inl (AlreadyOnPlan newPlan), w)"
    by (simp add: change_found [OF assms])
next
  assume a: "plan s = ''monthly'' \<and> setFullYear_next (ValidDate (now e)) = ValidDate t
      \<and> subscription_write_fails e = None
      \<and> truthy_id (stripeSubscriptionId s) = Some sid
      \<and> truthy_id (STRIPE_PRICE_ANNUAL_ID e) = Some price
      \<and> stripe_retrieve e sid = Inr cur \<and> item_ids cur = item # rest
      \<and> stripe_update e sid (ChangePrice item price) = Inr upd"
  then have ok: "subscription_write_fails e = None"
    by simp
  have r: "\<exists>w1. change_remote e sid ''monthly'' ''annual'' w =
      (Inr (ValidDate t, - (999 / 100 * 12 - 9999 / 100)), w1)"
    using a
    by (simp add: change_remote_def Let_def change_effectiveDate_def proration_def
        monthlyPrice_def annualPrice_def del: setFullYear_next.simps)
  then obtain w1 where w1: "change_remote e sid ''monthly'' ''annual'' w =
      (Inr (ValidDate t, - (999 / 100 * 12 - 9999 / 100)), w1)"
    by blast
  show "\<exists>doc. fst (changePlan e u ''annual'' w) =
       Inr \<lparr>cr_subscription = doc, cr_oldPlan = ''monthly'', cr_newPlan = ''annual'',
            cr_effectiveDate = ValidDate t,
            cr_prorationAmount = - (999 / 100 * 12 - 9999 / 100)\<rparr>
     \<and> plan doc = ''annual'' \<and> endDate doc = Some (ValidDate t)"
    using change_persisted [OF ok, of u "''monthly''" "''annual''" t "- (999 / 100 * 12 - 9999 / 100)" w1]
      a w1
    by (auto simp add: change_found [OF assms] simp del: setFullYear_next.simps)
  show "- (999 / 100 * 12 - 9999 / 100) = (- (1989 / 100) :: rat)"
    by simp
next
  assume b: "plan s = ''monthly'' \<and> setFullYear_next (ValidDate (now e)) = ValidDate t
      \<and> subscription_write_fails e = None
      \<and> truthy_id (stripeSubscriptionId s) = None"
  then have ok: "subscription_write_fails e = None"
    by simp
  have d: "change_effectiveDate e ''annual'' = ValidDate t"
    using b by (simp add: change_effectiveDate_def del: setFullYear_next.simps)
  show "\<exists>doc. fst (changePlan e u ''annual'' w) =
       Inr \<lparr>cr_subscription = doc, cr_oldPlan = ''monthly'', cr_newPlan = ''annual'',
            cr_effectiveDate = ValidDate t, cr_prorationAmount = 0\<rparr>
     \<and> plan doc = ''annual'' \<and> endDate doc = Some (ValidDate t)"
    using change_persisted [OF ok, of u "''monthly''" "''annual''" t 0 w] b d
    by (auto simp add: change_found [OF assms] simp del: setFullYear_next.simps)
qed

theorem changePlan_monthly_to_annual_witness:
  "changePlan env0 ''u1'' ''monthly'' world0 = (Inl (AlreadyOnPlan ''monthly''), world0)
   \<and> (\<exists>doc. fst (changePlan env_ok ''u1'' ''annual'' (world_of [sub1])) =
          Inr \<lparr>cr_subscription = doc, cr_oldPlan = ''monthly'', cr_newPlan = ''annual'',
               cr_effectiveDate = ValidDate 1736935200000, cr_prorationAmount = - (1989 / 100)\<rparr>
        \<and> plan doc = ''annual'' \<and> endDate doc = Some (ValidDate 1736935200000))
   \<and> (\<exists>doc. fst (changePlan env0 ''u1'' ''annual'' world0) =
          Inr \<lparr>cr_subscription = doc, cr_oldPlan = ''monthly'', cr_newPlan = ''annual'',
               cr_effectiveDate = ValidDate 1736935200000, cr_prorationAmount = 0\<rparr>
        \<and> plan doc = ''annual'' \<and> endDate doc = Some (ValidDate 1736935200000))"
proof -
  have f0: "Subscription_findOne (active_of ''u1'') world0 = Some sub0"
    by (simp add: Subscription_findOne_def world0_def active_of_def sub0_def)
  have f1: "Subscription_findOne (active_of ''u1'') (world_of [sub1]) = Some sub1"
    by (simp add: Subscription_findOne_def world_of_def active_of_def sub1_def sub0_def)
  have s0: "plan sub0 = ''monthly'' \<and> truthy_id (stripeSubscriptionId sub0) = None"
    by (simp add: truthy_id_def sub0_def)
  have s1: "plan sub1 = ''monthly'' \<and> truthy_id (stripeSubscriptionId sub1) = Some ''sub_1''"
    by (simp add: truthy_id_def sub1_def sub0_def)
  have e0: "setFullYear_next (ValidDate (now env0)) = ValidDate 1736935200000
      \<and> subscription_write_fails env0 = None"
    by (simp add: env0_def one_year_after_2024_01_15 del: setFullYear_next.simps)
  have e1: "setFullYear_next (ValidDate (now env_ok)) = ValidDate 1736935200000
      \<and> subscription_write_fails env_ok = None
      \<and> truthy_id (STRIPE_PRICE_ANNUAL_ID env_ok) = Some ''price_annual''
      \<and> stripe_retrieve env_ok ''sub_1'' = Inr (remote_sub False (Some 1707991200))
      \<and> item_ids (remote_sub False (Some 1707991200)) = ''si_1'' # []
      \<and> stripe_update env_ok ''sub_1'' (ChangePrice ''si_1'' ''price_annual'') =
          Inr (remote_sub False (Some 1707991200))"
    by (simp add: env_ok_def env0_def truthy_id_def remote_sub_def one_year_after_2024_01_15
        del: setFullYear_next.simps)
  show ?thesis
    using changePlan_monthly_to_annual [OF f0, of "''monthly''" env0 1736935200000 "''sub_1''"
        "''price_annual''" "remote_sub False None" "''si_1''" "[]" "remote_sub False None"]
      changePlan_monthly_to_annual [OF f1, of "''annual''" env_ok 1736935200000 "''sub_1''"
        "''price_annual''" "remote_sub False (Some 1707991200)" "''si_1''" "[]"
        "remote_sub False (Some 1707991200)"]
      s0 s1 e0 e1
    by (simp del: setFullYear_next.simps)
qed

section \<open>The webhook controllers\<close>

lemma route_unrecognized:
  "ty \<notin> set [''checkout.session.completed'', ''customer.subscription.deleted'',
      ''customer.subscription.updated'', ''invoice.paid'', ''invoice.payment_failed''] \<Longrightarrow>
   route hs ty = None"
  by (simp add: route_def)

lemma route_v1_unrecognized:
  "ty \<notin> set [''payment_intent.succeeded'', ''payment_intent.payment_failed'',
      ''customer.subscription.created'', ''customer.subscription.updated'',
      ''customer.subscription.deleted'', ''invoice.payment_succeeded'',
      ''invoice.payment_failed''] \<Longrightarrow>
   route_v1 ty = None"
  by (simp add: route_v1_def)

lemma route_v1_recognized:
  "ty \<in> set [''payment_intent.succeeded'', ''payment_intent.payment_failed'',
      ''customer.subscription.created'', ''customer.subscription.updated'',
      ''customer.subscription.deleted'', ''invoice.payment_succeeded'',
      ''invoice.payment_failed''] \<Longrightarrow>
   \<exists>m. route_v1 ty = Some m"
  by (auto simp add: route_v1_def)

lemma respond_json_status: "http_status (fst (respond_json outcome)) = 200"
  by (cases outcome) (simp add: respond_json_def split: sum.splits)

lemma processWebhookEvent_status: "http_status (fst (processWebhookEvent hs ev w)) = 200"
  by (cases "route hs (ev_type ev)") (simp_all add: processWebhookEvent_def respond_json_status)

lemma dispatch_v1_no_receiver:
  assumes "route_v1 (ev_type ev) = Some m"
  shows "dispatch_v1 None ev w =
     (\<lparr>http_status = 500,
       body = ProcessingFailed (ev_type ev) (undefined_receiver (method_name m))\<rparr>, w)"
  using assms by (simp add: dispatch_v1_def this_method_def respond_v1_def)

text \<open>The handler of the second controller does force the cancellation.\<close>

lemma handleSubscriptionDeleted_v1_cancels:
  assumes "find (\<lambda>s. v1_stripeSubscriptionId s = sid) (v1_subscriptions w) = Some s"
    and "v1_save_fails e = None"
  shows "fst (handleSubscriptionDeleted_v1 e sid w) = Inr ()
     \<and> find (\<lambda>s. v1_stripeSubscriptionId s = sid)
         (v1_subscriptions (snd (handleSubscriptionDeleted_v1 e sid w))) =
       Some (s\<lparr>v1_status := ''canceled'', v1_canceledAt := Some (ValidDate (v1_now e))\<rparr>)"
proof -
  have "v1_stripeSubscriptionId s = sid"
    using assms(1) by (induction "v1_subscriptions w" arbitrary: w) (auto simp add: find_Some_iff)
  then have "find (\<lambda>s. v1_stripeSubscriptionId s = sid)
      (replace_first (\<lambda>s. v1_stripeSubscriptionId s = sid)
         (s\<lparr>v1_status := ''canceled'', v1_canceledAt := Some (ValidDate (v1_now e))\<rparr>)
         (v1_subscriptions w)) =
      Some (s\<lparr>v1_status := ''canceled'', v1_canceledAt := Some (ValidDate (v1_now e))\<rparr>)"
    using find_replace_first [OF assms(1)] by simp
  then show ?thesis
    using assms by (simp add: handleSubscriptionDeleted_v1_def Let_def)
qed

text \<open>
  C2, as the specification states it: a verified event whose handler throws is still answered
  with a 2xx status. It fails for the controller of controllers/webhook.controller.js. Called
  on its instance, the signed "customer.subscription.deleted" event, whose handler throws when
  the store refuses the save, is answered with status 500. Called as POST /webhooks/stripe
  calls it, the same event is answered with status 500 although the store is up: reading the
  handler from the missing receiver throws, and the subscription is left as it was.
\<close>

theorem webhook_handler_failure_counterexample:
  "fst (handleSubscriptionDeleted_v1 env_v1_down (ev_object deleted_event) world_v1_0) =
       Inl ''store unavailable''
   \<and> http_status (fst (handleStripeWebhook_v1 (\<lambda>raw sig. Inr deleted_event)
        (Some (sample_handlers_v1 env_v1_down)) signed_request world_v1_0)) = 500
   \<and> post_webhooks_stripe (\<lambda>raw sig. Inr deleted_event) signed_request world_v1_0 =
       (\<lparr>http_status = 500,
         body = ProcessingFailed ''customer.subscription.deleted''
                  (undefined_receiver ''handleSubscriptionDeleted'')\<rparr>, world_v1_0)"
  by (simp add: post_webhooks_stripe_def handleStripeWebhook_v1_def dispatch_v1_def route_v1_def
      this_method_def respond_v1_def
      sample_handlers_v1_def handleSubscriptionDeleted_v1_def env_v1_down_def deleted_event_def
      signed_request_def world_v1_0_def sub_v1_def truthy_id_def Let_def)

text \<open>
  C2, amended. The dispatcher of controllers/webhookController.js answers every event with
  status 200: the value of the handler when it returns, the message of the error when the
  handler throws (the state being what the handler left), and "ignored" with the state
  untouched for a type it does not know; so does handleStripeWebhook for every request whose
  signature verifies. handleStripeWebhook of controllers/webhook.controller.js answers 200
  with the state untouched for a type it does not know, whatever its receiver. Called on its
  instance, it answers 200 when the handler returns and 500 when the handler throws. Called
  as POST /webhooks/stripe calls it, without a receiver, it answers 500 to every verified
  event of a type it knows, and no handler runs: the state is untouched.
\<close>

theorem webhook_acknowledgement:
  "http_status (fst (processWebhookEvent hs ev w)) = 200
   \<and> (constructEvent req = Inr ev \<longrightarrow>
        http_status (fst (handleStripeWebhook constructEvent hs req w)) = 200)
   \<and> (route hs (ev_type ev) = Some h \<and> h (ev_object ev) w = (Inl msg, w') \<longrightarrow>
        processWebhookEvent hs ev w = (\<lparr>http_status = 200, body = ReceivedError msg\<rparr>, w'))
   \<and> (ev_type ev \<notin> set [''checkout.session.completed'', ''customer.subscription.deleted'',
          ''customer.subscription.updated'', ''invoice.paid'', ''invoice.payment_failed''] \<longrightarrow>
        processWebhookEvent hs ev w = (\<lparr>http_status = 200, body = ReceivedIgnored\<rparr>, w))
   \<and> (route_v1 (ev_type ev1) = Some m
        \<and> method_of hs1 m (ev_object ev1) w1 = (Inl msg1, w1') \<longrightarrow>
        dispatch_v1 (Some hs1) ev1 w1 =
          (\<lparr>http_status = 500, body = ProcessingFailed (ev_type ev1) msg1\<rparr>, w1'))
   \<and> (route_v1 (ev_type ev1) = Some m
        \<and> method_of hs1 m (ev_object ev1) w1 = (Inr (), w1') \<longrightarrow>
        dispatch_v1 (Some hs1) ev1 w1 = (\<lparr>http_status = 200, body = Received\<rparr>, w1'))
   \<and> (ev_type ev1 \<notin> set [''payment_intent.succeeded'', ''payment_intent.payment_failed'',
          ''customer.subscription.created'', ''customer.subscription.updated'',
          ''customer.subscription.deleted'', ''invoice.payment_succeeded'',
          ''invoice.payment_failed''] \<longrightarrow>
        dispatch_v1 this1 ev1 w1 = (\<lparr>http_status = 200, body = Received\<rparr>, w1))
   \<and> (truthy_id (stripe_signature req1) = Some sg \<and> truthy_id (rawBody req1) = Some raw
        \<and> constructWebhookEvent raw sg = Inr ev1
        \<and> ev_type ev1 \<in> set [''payment_intent.succeeded'', ''payment_intent.payment_failed'',
          ''customer.subscription.created'', ''customer.subscription.updated'',
          ''customer.subscription.deleted'', ''invoice.payment_succeeded'',
          ''invoice.payment_failed''] \<longrightarrow>
        http_status (fst (post_webhooks_stripe constructWebhookEvent req1 w1)) = 500
        \<and> snd (post_webhooks_stripe constructWebhookEvent req1 w1) = w1)
   \<and> (truthy_id (stripe_signature req1) = Some sg \<and> truthy_id (rawBody req1) = Some raw
        \<and> constructWebhookEvent raw sg = Inr ev1
        \<and> ev_type ev1 \<notin> set [''payment_intent.succeeded'', ''payment_intent.payment_failed'',
          ''customer.subscription.created'', ''customer.subscription.updated'',
          ''customer.subscription.deleted'', ''invoice.payment_succeeded'',
          ''invoice.payment_failed''] \<longrightarrow>
        post_webhooks_stripe constructWebhookEvent req1 w1 =
          (\<lparr>http_status = 200, body = Received\<rparr>, w1))"
proof (intro conjI impI)
  show "http_status (fst (processWebhookEvent hs ev w)) = 200"
    by (rule processWebhookEvent_status)
next
  assume "constructEvent req = Inr ev"
  then show "http_status (fst (handleStripeWebhook constructEvent hs req w)) = 200"
    by (simp add: handleStripeWebhook_def processWebhookEvent_status)
next
  assume "route hs (ev_type ev) = Some h \<and> h (ev_object ev) w = (Inl msg, w')"
  then show "processWebhookEvent hs ev w = (\<lparr>http_status = 200, body = ReceivedError msg\<rparr>, w')"
    by (simp add: processWebhookEvent_def respond_json_def)
next
  assume "ev_type ev \<notin> set [''checkout.session.completed'', ''customer.subscription.deleted'',
      ''customer.subscription.updated'', ''invoice.paid'', ''invoice.payment_failed'']"
  then show "processWebhookEvent hs ev w = (\<lparr>http_status = 200, body = ReceivedIgnored\<rparr>, w)"
    using route_unrecognized [of "ev_type ev" hs] by (simp add: processWebhookEvent_def)
next
  assume "route_v1 (ev_type ev1) = Some m
      \<and> method_of hs1 m (ev_object ev1) w1 = (Inl msg1, w1')"
  then show "dispatch_v1 (Some hs1) ev1 w1 =
      (\<lparr>http_status = 500, body = ProcessingFailed (ev_type ev1) msg1\<rparr>, w1')"
    by (simp add: dispatch_v1_def this_method_def respond_v1_def)
next
  assume "route_v1 (ev_type ev1) = Some m
      \<and> method_of hs1 m (ev_object ev1) w1 = (Inr (), w1')"
  then show "dispatch_v1 (Some hs1) ev1 w1 = (\<lparr>http_status = 200, body = Received\<rparr>, w1')"
    by (simp add: dispatch_v1_def this_method_def respond_v1_def)
next
  assume "ev_type ev1 \<notin> set [''payment_intent.succeeded'', ''payment_intent.payment_failed'',
      ''customer.subscription.created'', ''customer.subscription.updated'',
      ''customer.subscription.deleted'', ''invoice.payment_succeeded'',
      ''invoice.payment_failed'']"
  then have "route_v1 (ev_type ev1) = None"
    by (rule route_v1_unrecognized)
  then show "dispatch_v1 this1 ev1 w1 = (\<lparr>http_status = 200, body = Received\<rparr>, w1)"
    by (simp add: dispatch_v1_def)
next
  assume a: "truthy_id (stripe_signature req1) = Some sg \<and> truthy_id (rawBody req1) = Some raw
      \<and> constructWebhookEvent raw sg = Inr ev1
      \<and> ev_type ev1 \<in> set [''payment_intent.succeeded'', ''payment_intent.payment_failed'',
        ''customer.subscription.created'', ''customer.subscription.updated'',
        ''customer.subscription.deleted'', ''invoice.payment_succeeded'',
        ''invoice.payment_failed'']"
  then obtain m0 where r: "route_v1 (ev_type ev1) = Some m0"
    using route_v1_recognized [of "ev_type ev1"] by blast
  have p: "post_webhooks_stripe constructWebhookEvent req1 w1 = dispatch_v1 None ev1 w1"
    using a by (simp add: post_webhooks_stripe_def handleStripeWebhook_v1_def)
  show "http_status (fst (post_webhooks_stripe constructWebhookEvent req1 w1)) = 500"
    using p dispatch_v1_no_receiver [OF r, of w1] by simp
  show "snd (post_webhooks_stripe constructWebhookEvent req1 w1) = w1"
    using p dispatch_v1_no_receiver [OF r, of w1] by simp
next
  assume a: "truthy_id (stripe_signature req1) = Some sg \<and> truthy_id (rawBody req1) = Some raw
      \<and> constructWebhookEvent raw sg = Inr ev1
      \<and> ev_type ev1 \<notin> set [''payment_intent.succeeded'', ''payment_intent.payment_failed'',
        ''customer.subscription.created'', ''customer.subscription.updated'',
        ''customer.subscription.deleted'', ''invoice.payment_succeeded'',
        ''invoice.payment_failed'']"
  then have "route_v1 (ev_type ev1) = None"
    by (intro route_v1_unrecognized) simp
  then show "post_webhooks_stripe constructWebhookEvent req1 w1 =
      (\<lparr>http_status = 200, body = Received\<rparr>, w1)"
    using a by (simp add: post_webhooks_stripe_def handleStripeWebhook_v1_def dispatch_v1_def)
qed

theorem webhook_acknowledgement_witness:
  "processWebhookEvent sample_handlers \<lparr>ev_type = ''checkout.session.completed'', ev_object = ''cs_1''\<rparr> world0 =
     (\<lparr>http_status = 200, body = ReceivedError ''User ID manquant dans metadata''\<rparr>, world0)
   \<and> http_status (fst (handleStripeWebhook
        (\<lambda>req :: string. Inr \<lparr>ev_type = ''checkout.session.completed'', ev_object = ''cs_1''\<rparr>)
        sample_handlers ''{}'' world0)) = 200
   \<and> processWebhookEvent sample_handlers \<lparr>ev_type = ''charge.refunded'', ev_object = ''ch_1''\<rparr> world0 =
     (\<lparr>http_status = 200, body = ReceivedIgnored\<rparr>, world0)
   \<and> http_status (fst (dispatch_v1 (Some (sample_handlers_v1 env_v1_down)) deleted_event world_v1_0)) = 500
   \<and> dispatch_v1 (Some (sample_handlers_v1 env_v1_down))
        \<lparr>ev_type = ''payment_intent.succeeded'', ev_object = ''pi_1''\<rparr> world_v1_0 =
     (\<lparr>http_status = 200, body = Received\<rparr>, world_v1_0)
   \<and> dispatch_v1 (Some (sample_handlers_v1 env_v1_down))
        \<lparr>ev_type = ''charge.refunded'', ev_object = ''ch_1''\<rparr> world_v1_0 =
     (\<lparr>http_status = 200, body = Received\<rparr>, world_v1_0)
   \<and> http_status (fst (post_webhooks_stripe (\<lambda>raw sig. Inr deleted_event) signed_request world_v1_0)) = 500
   \<and> snd (post_webhooks_stripe (\<lambda>raw sig. Inr deleted_event) signed_request world_v1_0) = world_v1_0
   \<and> post_webhooks_stripe (\<lambda>raw sig. Inr \<lparr>ev_type = ''charge.refunded'', ev_object = ''ch_1''\<rparr>)
        signed_request world_v1_0 =
     (\<lparr>http_status = 200, body = Received\<rparr>, world_v1_0)"
proof -
  have r: "route sample_handlers ''checkout.session.completed'' =
      Some (\<lambda>obj w. (Inl ''User ID manquant dans metadata'', w))"
    by (simp add: route_def sample_handlers_def)
  have r1: "route_v1 ''customer.subscription.deleted'' = Some SubscriptionDeleted"
    by (simp add: route_v1_def)
  have t1: "method_of (sample_handlers_v1 env_v1_down) SubscriptionDeleted ''sub_1'' world_v1_0 =
      (Inl ''store unavailable'', world_v1_0\<lparr>v1_effects := [SaveSubscription ''sub_1'']\<rparr>)"
    by (simp add: sample_handlers_v1_def handleSubscriptionDeleted_v1_def env_v1_down_def
        world_v1_0_def sub_v1_def Let_def)
  have r2: "route_v1 ''payment_intent.succeeded'' = Some PaymentIntentSucceeded"
    by (simp add: route_v1_def)
  have t2: "method_of (sample_handlers_v1 env_v1_down) PaymentIntentSucceeded ''pi_1'' world_v1_0 =
      (Inr (), world_v1_0)"
    by (simp add: sample_handlers_v1_def)
  have q: "truthy_id (stripe_signature signed_request) = Some ''t=1,v1=5257a869''
      \<and> truthy_id (rawBody signed_request) = Some ''{}''"
    by (simp add: truthy_id_def signed_request_def)
  show ?thesis
    using webhook_acknowledgement [where hs = sample_handlers
        and ev = "\<lparr>ev_type = ''checkout.session.completed'', ev_object = ''cs_1''\<rparr>"
        and w = world0
        and constructEvent = "\<lambda>req :: string. Inr \<lparr>ev_type = ''checkout.session.completed'', ev_object = ''cs_1''\<rparr>"
        and req = "''{}''"
        and h = "\<lambda>obj w. (Inl ''User ID manquant dans metadata'', w)"
        and msg = "''User ID manquant dans metadata''" and w' = world0
        and m = SubscriptionDeleted
        and ?hs1.0 = "sample_handlers_v1 env_v1_down" and ?ev1.0 = deleted_event
        and ?w1.0 = world_v1_0
        and ?msg1.0 = "''store unavailable''"
        and ?w1'.0 = "world_v1_0\<lparr>v1_effects := [SaveSubscription ''sub_1'']\<rparr>"
        and ?this1.0 = None
        and ?req1.0 = signed_request and sg = "''t=1,v1=5257a869''" and raw = "''{}''"
        and constructWebhookEvent = "\<lambda>raw sig. Inr deleted_event"]
      webhook_acknowledgement [where hs = sample_handlers
        and ev = "\<lparr>ev_type = ''charge.refunded'', ev_object = ''ch_1''\<rparr>"
        and w = world0
        and constructEvent = "\<lambda>req :: string. Inr \<lparr>ev_type = ''charge.refunded'', ev_object = ''ch_1''\<rparr>"
        and req = "''{}''"
        and h = "\<lambda>obj w. (Inl ''User ID manquant dans metadata'', w)"
        and msg = "''User ID manquant dans metadata''" and w' = world0
        and m = PaymentIntentSucceeded
        and ?hs1.0 = "sample_handlers_v1 env_v1_down"
        and ?ev1.0 = "\<lparr>ev_type = ''payment_intent.succeeded'', ev_object = ''pi_1''\<rparr>"
        and ?w1.0 = world_v1_0
        and ?msg1.0 = "''store unavailable''" and ?w1'.0 = world_v1_0
        and ?this1.0 = None
        and ?req1.0 = signed_request and sg = "''t=1,v1=5257a869''" and raw = "''{}''"
        and constructWebhookEvent = "\<lambda>raw sig. Inr \<lparr>ev_type = ''payment_intent.succeeded'', ev_object = ''pi_1''\<rparr>"]
      webhook_acknowledgement [where hs = sample_handlers
        and ev = "\<lparr>ev_type = ''charge.refunded'', ev_object = ''ch_1''\<rparr>"
        and w = world0
        and constructEvent = "\<lambda>req :: string. Inr \<lparr>ev_type = ''charge.refunded'', ev_object = ''ch_1''\<rparr>"
        and req = "''{}''"
        and h = "\<lambda>obj w. (Inl ''User ID manquant dans metadata'', w)"
        and msg = "''User ID manquant dans metadata''" and w' = world0
        and m = PaymentIntentSucceeded
        and ?hs1.0 = "sample_handlers_v1 env_v1_down"
        and ?ev1.0 = "\<lparr>ev_type = ''charge.refunded'', ev_object = ''ch_1''\<rparr>"
        and ?w1.0 = world_v1_0
        and ?msg1.0 = "''store unavailable''" and ?w1'.0 = world_v1_0
        and ?this1.0 = "Some (sample_handlers_v1 env_v1_down)"
        and ?req1.0 = signed_request and sg = "''t=1,v1=5257a869''" and raw = "''{}''"
        and constructWebhookEvent = "\<lambda>raw sig. Inr \<lparr>ev_type = ''charge.refunded'', ev_object = ''ch_1''\<rparr>"]
      r r1 t1 r2 t2 q
    by (simp add: deleted_event_def)
qed

text \<open>
  C3. The dispatcher of controllers/webhookController.js routes "customer.subscription.deleted"
  to a method its class does not define: for every such event the call throws, the dispatcher
  answers 200 with the error, and the state is left as it was, so that no subscription is set
  to canceled. (The handler of controllers/webhook.controller.js does set it, see
  \<open>handleSubscriptionDeleted_v1_cancels\<close>.)
\<close>

theorem subscription_deleted_event_changes_nothing:
  "processWebhookEvent hs \<lparr>ev_type = ''customer.subscription.deleted'', ev_object = obj\<rparr> w =
     (\<lparr>http_status = 200,
       body = ReceivedError ''WebhookController.handleSubscriptionDeleted is not a function''\<rparr>, w)"
  by (simp add: processWebhookEvent_def route_def respond_json_def
      handleSubscriptionDeleted_undefined_def)

text \<open>At the sample data: the active subscription sub_1 of user u1 is still active after the
  event.\<close>

lemma deleted_event_sample:
  "map_option status
     (Subscription_findOne (\<lambda>s. stripeSubscriptionId s = Some ''sub_1'')
        (snd (processWebhookEvent sample_handlers deleted_event (world_of [sub1])))) =
   Some ''active''"
  by (simp add: processWebhookEvent_def route_def respond_json_def
      handleSubscriptionDeleted_undefined_def deleted_event_def Subscription_findOne_def
      world_of_def sub1_def sub0_def)

end
